theory Spec2Isabelle
  imports
    Complex_Main
    "HOL-Library.AList"
    "HOL-Library.Char_ord"
    "HOL-Library.List_Lexorder"
    "HOL-Library.Product_Lexorder"
begin

section \<open>One-off map/reduce jobs over explorations\<close>

text \<open>
  The module is \<^verbatim>\<open>core/domain/exp_jobs_one_off.py\<close>.
  Every job of the module is a class with two static methods: \<open>map(item)\<close>, a generator
  that is run once per stored record, and \<open>reduce(key, values)\<close>, run once per emitted
  key. The embedding turns each method into a HOL function that returns a \<open>run\<close>:
  the pairs it yielded, in order, the calls it made that reach outside the process
  (logging, datastore deletion, the versioned-write API, ...), in order, and the
  exception that left the method, if one did. A generator that raises after a
  \<open>yield\<close> has delivered the earlier pairs already, so the three are kept side by side.

  The module's collaborators (\<open>exp_fetchers\<close>, \<open>exp_services\<close>,
  \<open>rights_manager\<close>, \<open>html_validation_service\<close>, \<open>exp_domain\<close>,
  \<open>feconf\<close>, \<open>constants\<close>, \<open>utils\<close>) are other modules. Their
  functions and constants are the fields of the record \<open>env\<close>, a parameter of every
  job, so every theorem holds for whatever those modules compute.
\<close>

subsection \<open>Exceptions, emitted values, effects\<close>

text \<open>
  An exception carries the text \<open>str(e)\<close> that the source formats into messages.
  \<open>ValidationError\<close> is \<open>utils.ValidationError\<close>; every constructor is an
  \<open>Exception\<close> for the purposes of \<open>except Exception\<close>.
\<close>

datatype exn =
    ValidationError string
  | IndexError string
  | KeyError string
  | AttributeError string
  | ValueError string
  | Exception string

fun exn_str :: "exn \<Rightarrow> string" where
  "exn_str (ValidationError m) = m"
| "exn_str (IndexError m) = m"
| "exn_str (KeyError m) = m"
| "exn_str (AttributeError m) = m"
| "exn_str (ValueError m) = m"
| "exn_str (Exception m) = m"

text \<open>The Python values that the jobs put into their emissions.\<close>

datatype pyval =
    PInt int
  | PFloat real
  | PStr string
  | PList "pyval list"
  | PTuple "pyval list"
  | PDict "(string \<times> pyval) list"

type_synonym emission = "string \<times> pyval"

record commit_cmd =
  cmd :: string
  from_version :: string
  to_version :: string

text \<open>
  A \<open>yield\<close> is not an effect; these are: the two logging calls, \<open>item.delete()\<close>,
  \<open>exp_services.update_exploration(committer, exp_id, change_list, message)\<close>,
  \<open>rights_manager.update_activity_first_published_msec(type, id, msec)\<close> and
  \<open>exp_services.save_multi_exploration_math_rich_text_info_model(list)\<close>.
\<close>

datatype effect =
    LogError string
  | LogException string
  | ModelDelete string
  | UpdateExploration string string "commit_cmd list" string
  | UpdateFirstPublished string string real
  | SaveMathRichTextInfo "(string \<times> bool \<times> string list) list"

record run =
  emits :: "emission list"
  effects :: "effect list"
  raised :: "exn option"

definition returned :: "emission list \<Rightarrow> effect list \<Rightarrow> run" where
  "returned es fs = \<lparr>emits = es, effects = fs, raised = None\<rparr>"

definition propagated :: "emission list \<Rightarrow> effect list \<Rightarrow> exn \<Rightarrow> run" where
  "propagated es fs e = \<lparr>emits = es, effects = fs, raised = Some e\<rparr>"

subsection \<open>Strings: \<open>%d\<close>, \<open>find\<close>, \<open>in\<close>, slices\<close>

definition digit_char :: "nat \<Rightarrow> char" where
  "digit_char d = ''0123456789'' ! (d mod 10)"

fun str_of_nat :: "nat \<Rightarrow> string" where
  "str_of_nat n =
     (if n < 10 then [digit_char n] else str_of_nat (n div 10) @ [digit_char (n mod 10)])"

declare str_of_nat.simps [simp del]

text \<open>\<open>'%d' % i\<close>, \<open>'%s' % i\<close> and \<open>python_utils.UNICODE(i)\<close> for an integer.\<close>

definition str_of_int :: "int \<Rightarrow> string" where
  "str_of_int i = (if i < 0 then CHR ''-'' # str_of_nat (nat (- i)) else str_of_nat (nat i))"

text \<open>\<open>s.find(sub)\<close>: the least index where \<open>sub\<close> starts in \<open>s\<close>, or \<open>-1\<close>.\<close>

primrec find_from :: "string \<Rightarrow> string \<Rightarrow> nat \<Rightarrow> int" where
  "find_from sub [] i = (if sub = [] then int i else - 1)"
| "find_from sub (c # cs) i =
     (if take (length sub) (c # cs) = sub then int i else find_from sub cs (Suc i))"

definition str_find :: "string \<Rightarrow> string \<Rightarrow> int" where
  "str_find s sub = find_from sub s 0"

text \<open>\<open>sub in s\<close> for strings.\<close>

definition str_contains :: "string \<Rightarrow> string \<Rightarrow> bool" where
  "str_contains sub s = (str_find s sub \<noteq> - 1)"

text \<open>\<open>s[:n]\<close> and \<open>s[n:]\<close>; a negative bound counts from the end.\<close>

definition slice_to :: "'a list \<Rightarrow> int \<Rightarrow> 'a list" where
  "slice_to s n = (if n < 0 then take (nat (int (length s) + n)) s else take (nat n) s)"

definition slice_from :: "'a list \<Rightarrow> int \<Rightarrow> 'a list" where
  "slice_from s n = (if n < 0 then drop (nat (int (length s) + n)) s else drop (nat n) s)"

text \<open>
  \<open>[ast.literal_eval(v) for v in values]\<close>: the first value that does not parse raises,
  and nothing has been yielded by then. \<open>ast.literal_eval\<close> is a library function; each
  \<open>reduce\<close> takes it as a parameter, at the type of the values its own \<open>map\<close> emits
  (the engine hands \<open>reduce\<close> the emitted values as strings).
\<close>

primrec eval_all :: "(string \<Rightarrow> exn + 'a) \<Rightarrow> string list \<Rightarrow> exn + 'a list" where
  "eval_all literal_eval [] = Inr []"
| "eval_all literal_eval (v # vs) =
     (case literal_eval v of
        Inl e \<Rightarrow> Inl e
      | Inr x \<Rightarrow> (case eval_all literal_eval vs of Inl e \<Rightarrow> Inl e | Inr xs \<Rightarrow> Inr (x # xs)))"

subsection \<open>Stored records\<close>

text \<open>
  \<open>base_model\<close> holds what every stored model has (\<open>item.id\<close>, \<open>item.deleted\<close>);
  the three kinds of record the jobs scan extend it with the fields the jobs read.
\<close>

record base_model =
  model_id :: string
  deleted :: bool

record exploration_model = base_model +
  title :: string
  states_schema_version :: int
  states :: "(string \<times> pyval) list"

record exploration_rights_snapshot_content_model = base_model +
  content :: "(string \<times> pyval) list"
  created_on :: int
  unversioned_instance_id :: string

record exploration_math_rich_text_info_model = base_model +
  latex_strings_without_svg :: "string list"

subsection \<open>Domain objects and collaborators\<close>

text \<open>
  A domain \<open>State\<close>, as far as the jobs look at it:
  \<open>state.get_all_html_content_strings()\<close> and \<open>state.interaction.hints\<close>. A
  domain \<open>Exploration\<close>: \<open>exploration.states\<close>, a dict, kept as the list of its
  \<open>items()\<close> in iteration order, and \<open>exploration.get_all_html_content_strings()\<close>.
\<close>

record state =
  state_html_content_strings :: "string list"
  hints :: "pyval list"

record exploration =
  exp_states :: "(string \<times> state) list"
  exp_html_content_strings :: "string list"

record activity_rights =
  status :: string
  viewable_if_private :: bool

text \<open>
  The dict \<open>versioned_exploration_states\<close> that the audit job hands to
  \<open>exp_domain.Exploration.update_states_from_model\<close>, which updates it in place; the
  model gets the updated dict back.
\<close>

record versioned_exploration_states =
  vs_states_schema_version :: int
  vs_states :: "(string \<times> pyval) list"

text \<open>
  The collaborators. A function that can raise returns \<open>exn + 'a\<close>, or \<open>exn option\<close>
  when it returns nothing. \<open>validate env e strict\<close> is \<open>e.validate(strict=strict)\<close>;
  \<open>get_exploration_rights env id strict\<close> is
  \<open>rights_manager.get_exploration_rights(id, strict=strict)\<close> and \<open>Inr None\<close> its
  result \<open>None\<close>. The functions of \<open>html_validation_service\<close> and the accessors of
  \<open>exp_domain.ExplorationMathRichTextInfo\<close> are taken as returning a result.
\<close>

record env =
  CURRENT_STATE_SCHEMA_VERSION :: int
  MIGRATION_BOT_USERNAME :: string
  ENTITY_TYPE_EXPLORATION :: string
  RTE_FORMAT_CKEDITOR :: string
  MAX_SIZE_OF_MATH_SVGS_BATCH_BYTES :: int
  CMD_MIGRATE_STATES_SCHEMA_TO_LATEST_VERSION :: string
  ACTIVITY_TYPE_EXPLORATION :: string
  rights_manager_ACTIVITY_STATUS_PUBLIC :: string
  rights_manager_ACTIVITY_STATUS_PRIVATE :: string
  constants_ACTIVITY_STATUS_PRIVATE :: string
  get_time_in_millisecs :: "int \<Rightarrow> real"
  get_exploration_from_model :: "exploration_model \<Rightarrow> exn + exploration"
  get_exploration_by_id :: "string \<Rightarrow> exn + exploration"
  get_exploration_rights :: "string \<Rightarrow> bool \<Rightarrow> exn + activity_rights option"
  validate :: "exploration \<Rightarrow> bool \<Rightarrow> exn option"
  update_states_from_model ::
    "versioned_exploration_states \<Rightarrow> int \<Rightarrow> string \<Rightarrow> exn + versioned_exploration_states"
  update_exploration :: "string \<Rightarrow> string \<Rightarrow> commit_cmd list \<Rightarrow> string \<Rightarrow> exn option"
  update_activity_first_published_msec :: "string \<Rightarrow> string \<Rightarrow> real \<Rightarrow> exn option"
  validate_svg_filenames_in_math_rich_text :: "string \<Rightarrow> string \<Rightarrow> string \<Rightarrow> string list"
  add_math_content_to_math_rte_components :: "string \<Rightarrow> string"
  validate_math_tags_in_html_with_attribute_math_content :: "string \<Rightarrow> string list"
  get_latex_strings_without_svg_from_html :: "string \<Rightarrow> string list"
  validate_rte_format :: "string list \<Rightarrow> string \<Rightarrow> (string \<times> string list) list"
  validate_customization_args :: "string list \<Rightarrow> (string \<times> string list) list"
  get_svg_size_in_bytes :: "string \<times> bool \<times> string list \<Rightarrow> int"
  get_longest_latex_expression :: "string \<times> bool \<times> string list \<Rightarrow> string"
  save_multi_exploration_math_rich_text_info_model ::
    "(string \<times> bool \<times> string list) list \<Rightarrow> exn option"

text \<open>\<open>x.status\<close> where \<open>x\<close> may be \<open>None\<close>.\<close>

definition attr_status :: "activity_rights option \<Rightarrow> exn + string" where
  "attr_status r =
     (case r of
        None \<Rightarrow> Inl (AttributeError ''NoneType object has no attribute status'')
      | Some rights \<Rightarrow> Inr (status rights))"

subsection \<open>ExplorationFirstPublishedOneOffJob\<close>

text \<open>
  \<open>map\<close> reads \<open>item.content['status']\<close>; it does not read \<open>item.deleted\<close>.
  \<open>reduce\<close> has no \<open>yield\<close>: it is a plain function that returns \<open>None\<close>.
\<close>

definition first_published_map ::
    "env \<Rightarrow> exploration_rights_snapshot_content_model \<Rightarrow> run" where
  "first_published_map env item =
     (case map_of (content item) ''status'' of
        None \<Rightarrow> propagated [] [] (KeyError ''status'')
      | Some st \<Rightarrow>
          if st = PStr (rights_manager_ACTIVITY_STATUS_PUBLIC env)
          then returned
                 [(unversioned_instance_id item,
                   PFloat (get_time_in_millisecs env (created_on item)))] []
          else returned [] [])"

text \<open>\<open>min(xs)\<close> raises \<open>ValueError\<close> on an empty list.\<close>

definition py_min :: "real list \<Rightarrow> exn + real" where
  "py_min xs = (case xs of [] \<Rightarrow> Inl (ValueError ''min() arg is an empty sequence'')
                | x # ys \<Rightarrow> Inr (fold min ys x))"

definition first_published_reduce ::
    "env \<Rightarrow> (string \<Rightarrow> exn + real) \<Rightarrow> string \<Rightarrow> string list \<Rightarrow> run" where
  "first_published_reduce env literal_eval exp_id stringified_commit_times_msecs =
     (case get_exploration_rights env exp_id False of
        Inl e \<Rightarrow> propagated [] [] e
      | Inr None \<Rightarrow> returned [] []
      | Inr (Some exploration_rights) \<Rightarrow>
          (case eval_all literal_eval stringified_commit_times_msecs of
             Inl e \<Rightarrow> propagated [] [] e
           | Inr commit_times_msecs \<Rightarrow>
               (case py_min commit_times_msecs of
                  Inl e \<Rightarrow> propagated [] [] e
                | Inr first_published_msec \<Rightarrow>
                    (case update_activity_first_published_msec env
                            (ACTIVITY_TYPE_EXPLORATION env) exp_id first_published_msec of
                       Some e \<Rightarrow>
                         propagated []
                           [UpdateFirstPublished (ACTIVITY_TYPE_EXPLORATION env) exp_id
                              first_published_msec] e
                     | None \<Rightarrow>
                         returned []
                           [UpdateFirstPublished (ACTIVITY_TYPE_EXPLORATION env) exp_id
                              first_published_msec]))))"

subsection \<open>ExplorationValidityJobManager\<close>

text \<open>
  The two loads stand before the \<open>try\<close>. The \<open>try\<close> covers \<open>exp_rights.status\<close>
  and the call of \<open>validate\<close>, and catches \<open>utils.ValidationError\<close> only.
\<close>

definition validity_map :: "env \<Rightarrow> exploration_model \<Rightarrow> run" where
  "validity_map env item =
     (if deleted item then returned [] []
      else
        (case get_exploration_from_model env item of
           Inl e \<Rightarrow> propagated [] [] e
         | Inr exploration \<Rightarrow>
             (case get_exploration_rights env (model_id item) True of
                Inl e \<Rightarrow> propagated [] [] e
              | Inr exp_rights \<Rightarrow>
                  (case attr_status exp_rights of
                     Inl e \<Rightarrow> propagated [] [] e
                   | Inr st \<Rightarrow>
                       (case (if st = rights_manager_ACTIVITY_STATUS_PRIVATE env
                              then validate env exploration False
                              else validate env exploration True) of
                          None \<Rightarrow> returned [] []
                        | Some (ValidationError m) \<Rightarrow>
                            returned [(model_id item, PStr m)] []
                        | Some e \<Rightarrow> propagated [] [] e)))))"

definition validity_reduce :: "string \<Rightarrow> string list \<Rightarrow> run" where
  "validity_reduce key vals = returned [(key, PList (map PStr vals))] []"

subsection \<open>ExplorationMigrationAuditJob\<close>

text \<open>
  The \<open>while\<close> loop of \<open>map\<close>. Its result is what it yielded, what it logged, and the
  final value of the local \<open>states_schema_version\<close>. The test
  \<open>states_schema_version == current_state_schema_version\<close> that yields
  \<open>('SUCCESS', 1)\<close> stands inside the loop body, after the \<open>try\<close>; the \<open>except\<close>
  branch leaves the loop by \<open>break\<close>.
\<close>

function audit_loop ::
    "env \<Rightarrow> string \<Rightarrow> versioned_exploration_states \<Rightarrow> int \<Rightarrow>
     emission list \<times> effect list \<times> int" where
  "audit_loop env item_id versioned_states v =
     (if v < CURRENT_STATE_SCHEMA_VERSION env then
        (case update_states_from_model env versioned_states v item_id of
           Inl e \<Rightarrow>
             (let error_message =
                    ''Exploration '' @ item_id @ '' failed migration to states v'' @
                    str_of_int (v + 1) @ '': '' @ exn_str e
              in ([(''MIGRATION_ERROR'', PStr error_message)],
                  [LogException error_message], v))
         | Inr versioned_states' \<Rightarrow>
             (let v' = v + 1;
                  here = (if v' = CURRENT_STATE_SCHEMA_VERSION env
                          then [(''SUCCESS'', PInt 1)] else []);
                  (es, fs, vfinal) = audit_loop env item_id versioned_states' v'
              in (here @ es, fs, vfinal)))
      else ([], [], v))"
  by pat_completeness auto
termination
  by (relation "measure (\<lambda>(env, item_id, vs, v). nat (CURRENT_STATE_SCHEMA_VERSION env - v))")
     auto

declare audit_loop.simps [simp del]

text \<open>
  The same loop, read for its calls of \<open>update_states_from_model\<close>: the dict and the
  version that each round passes, in order. The loop makes a next call only after the
  one before has returned.
\<close>

function audit_calls ::
    "env \<Rightarrow> string \<Rightarrow> versioned_exploration_states \<Rightarrow> int \<Rightarrow>
     (versioned_exploration_states \<times> int) list" where
  "audit_calls env item_id versioned_states v =
     (if v < CURRENT_STATE_SCHEMA_VERSION env then
        (versioned_states, v) #
        (case update_states_from_model env versioned_states v item_id of
           Inl e \<Rightarrow> []
         | Inr versioned_states' \<Rightarrow> audit_calls env item_id versioned_states' (v + 1))
      else [])"
  by pat_completeness auto
termination
  by (relation "measure (\<lambda>(env, item_id, vs, v). nat (CURRENT_STATE_SCHEMA_VERSION env - v))")
     auto

declare audit_calls.simps [simp del]

definition audit_map :: "env \<Rightarrow> exploration_model \<Rightarrow> run" where
  "audit_map env item =
     (if deleted item then returned [] []
      else
        (let states_schema_version0 = states_schema_version item;
             versioned_exploration_states =
               \<lparr>vs_states_schema_version = states_schema_version0, vs_states = states item\<rparr>;
             (es, fs, vfinal) =
               audit_loop env (model_id item) versioned_exploration_states
                 states_schema_version0
         in returned es fs))"

definition audit_reduce :: "string \<Rightarrow> string list \<Rightarrow> run" where
  "audit_reduce key vals =
     (if key = ''SUCCESS'' then returned [(key, PInt (int (length vals)))] []
      else returned [(key, PList (map PStr vals))] [])"

subsection \<open>ExplorationMigrationJobManager\<close>

definition migration_map :: "env \<Rightarrow> exploration_model \<Rightarrow> run" where
  "migration_map env item =
     (if deleted item then returned [] []
      else
        (case get_exploration_by_id env (model_id item) of
           Inl e \<Rightarrow> propagated [] [] e
         | Inr old_exploration \<Rightarrow>
             (case validate env old_exploration False of
                Some e \<Rightarrow>
                  returned []
                    [LogError (''Exploration '' @ model_id item @
                               '' failed non-strict validation: '' @ exn_str e)]
              | None \<Rightarrow>
                  if states_schema_version item \<noteq> CURRENT_STATE_SCHEMA_VERSION env then
                    (let commit_cmds =
                           [\<lparr>cmd = CMD_MIGRATE_STATES_SCHEMA_TO_LATEST_VERSION env,
                             from_version = str_of_int (states_schema_version item),
                             to_version = str_of_int (CURRENT_STATE_SCHEMA_VERSION env)\<rparr>];
                         call =
                           UpdateExploration (MIGRATION_BOT_USERNAME env) (model_id item)
                             commit_cmds
                             (''Update exploration states from schema version '' @
                              str_of_int (states_schema_version item) @ '' to '' @
                              str_of_int (CURRENT_STATE_SCHEMA_VERSION env) @ ''.'')
                     in (case update_exploration env (MIGRATION_BOT_USERNAME env)
                                (model_id item) commit_cmds
                                (''Update exploration states from schema version '' @
                                 str_of_int (states_schema_version item) @ '' to '' @
                                 str_of_int (CURRENT_STATE_SCHEMA_VERSION env) @ ''.'') of
                           Some e \<Rightarrow> propagated [] [call] e
                         | None \<Rightarrow> returned [(''SUCCESS'', PStr (model_id item))] [call]))
                  else returned [] [])))"

definition migration_reduce :: "string \<Rightarrow> string list \<Rightarrow> run" where
  "migration_reduce key vals = returned [(key, PInt (int (length vals)))] []"

subsection \<open>ExplorationMathSvgFilenameValidationOneOffJob\<close>

text \<open>
  The dict that \<open>map\<close> builds for a state with invalid tags. \<open>reduce\<close> reads the
  emitted tuples back: \<open>(exp_id, [dict, ...])\<close>, each dict with the three keys.
\<close>

record invalid_tags_info =
  state_name :: string
  error_list :: "string list"
  no_of_invalid_tags :: int

definition invalid_tags_dict :: "invalid_tags_info \<Rightarrow> pyval" where
  "invalid_tags_dict d =
     PDict [(''state_name'', PStr (state_name d)),
            (''error_list'', PList (map PStr (error_list d))),
            (''no_of_invalid_tags'', PInt (no_of_invalid_tags d))]"

primrec svg_states_loop ::
    "env \<Rightarrow> string \<Rightarrow> (string \<times> state) list \<Rightarrow> invalid_tags_info list \<Rightarrow>
     invalid_tags_info list" where
  "svg_states_loop env item_id [] invalid_tags_info_in_exp = invalid_tags_info_in_exp"
| "svg_states_loop env item_id (st # rest) invalid_tags_info_in_exp =
     (let html_string = concat (state_html_content_strings (snd st));
          errs = validate_svg_filenames_in_math_rich_text env
                   (ENTITY_TYPE_EXPLORATION env) item_id html_string
      in if length errs > 0
         then svg_states_loop env item_id rest
                (invalid_tags_info_in_exp @
                 [\<lparr>state_name = fst st, error_list = errs,
                   no_of_invalid_tags = int (length errs)\<rparr>])
         else svg_states_loop env item_id rest invalid_tags_info_in_exp)"

definition svg_filename_map :: "env \<Rightarrow> exploration_model \<Rightarrow> run" where
  "svg_filename_map env item =
     (if deleted item then returned [] []
      else
        (case get_exploration_from_model env item of
           Inl e \<Rightarrow> propagated [] [] e
         | Inr exploration \<Rightarrow>
             (let invalid_tags_info_in_exp =
                    svg_states_loop env (model_id item) (exp_states exploration) []
              in if length invalid_tags_info_in_exp > 0
                 then returned
                        [(''Found invalid tags'',
                          PTuple [PStr (model_id item),
                                  PList (map invalid_tags_dict invalid_tags_info_in_exp)])] []
                 else returned [] [])))"

text \<open>
  The inner loop of \<open>reduce\<close>: it adds \<open>value['no_of_invalid_tags']\<close> to the count,
  deletes that key from the dict and appends the dict to the list under \<open>exp_id\<close>.
\<close>

primrec svg_tags_loop ::
    "invalid_tags_info list \<Rightarrow> int \<times> pyval list \<Rightarrow> int \<times> pyval list" where
  "svg_tags_loop [] acc = acc"
| "svg_tags_loop (d # ds) acc =
     svg_tags_loop ds
       (fst acc + no_of_invalid_tags d,
        snd acc @ [PDict [(''state_name'', PStr (state_name d)),
                          (''error_list'', PList (map PStr (error_list d)))]])"

text \<open>
  The outer loop: \<open>invalid_tags_info[exp_id] = []\<close> replaces an entry that is there
  already, then the inner loop fills it.
\<close>

primrec svg_exps_loop ::
    "(string \<times> invalid_tags_info list) list \<Rightarrow> int \<times> (string \<times> pyval) list \<Rightarrow>
     int \<times> (string \<times> pyval) list" where
  "svg_exps_loop [] acc = acc"
| "svg_exps_loop (fv # fvs) acc =
     (let r = svg_tags_loop (snd fv) (fst acc, [])
      in svg_exps_loop fvs (fst r, AList.update (fst fv) (PList (snd r)) (snd acc)))"

definition svg_filename_reduce ::
    "(string \<Rightarrow> exn + string \<times> invalid_tags_info list) \<Rightarrow> string \<Rightarrow> string list \<Rightarrow> run" where
  "svg_filename_reduce literal_eval key vals =
     (case eval_all literal_eval vals of
        Inl e \<Rightarrow> propagated [] [] e
      | Inr final_values \<Rightarrow>
          (let r = svg_exps_loop final_values (0, []);
               final_value_dict =
                 PDict [(''no_of_explorations_with_no_svgs'', PInt (int (length final_values))),
                        (''no_of_invalid_tags'', PInt (fst r))]
           in returned
                [(''Overall result.'', final_value_dict),
                 (''Detailed information on invalid tags. '', PDict (snd r))] []))"

subsection \<open>ExplorationMockMathMigrationOneOffJob\<close>

primrec mock_math_states_loop ::
    "env \<Rightarrow> string \<Rightarrow> string \<Rightarrow> (string \<times> state) list \<Rightarrow> emission list" where
  "mock_math_states_loop env item_id exploration_status [] = []"
| "mock_math_states_loop env item_id exploration_status (st # rest) =
     (let html_string = concat (state_html_content_strings (snd st));
          converted_html_string = add_math_content_to_math_rte_components env html_string;
          errs = validate_math_tags_in_html_with_attribute_math_content env
                   converted_html_string
      in (if length errs > 0
          then [(''exp_id: '' @ item_id @ '', exp_status: '' @ exploration_status @
                 '' failed validation after migration'',
                 PDict [(''state_name'', PStr (fst st)),
                        (''error_list'', PList (map PStr errs)),
                        (''no_of_invalid_tags'', PInt (int (length errs)))])]
          else []) @
         mock_math_states_loop env item_id exploration_status rest)"

definition mock_math_map :: "env \<Rightarrow> exploration_model \<Rightarrow> run" where
  "mock_math_map env item =
     (if deleted item then returned [] []
      else
        (case get_exploration_from_model env item of
           Inl e \<Rightarrow> propagated [] [] e
         | Inr exploration \<Rightarrow>
             (case get_exploration_rights env (model_id item) True of
                Inl e \<Rightarrow> propagated [] [] e
              | Inr rights \<Rightarrow>
                  (case attr_status rights of
                     Inl e \<Rightarrow> propagated [] [] e
                   | Inr exploration_status \<Rightarrow>
                       returned
                         (mock_math_states_loop env (model_id item) exploration_status
                            (exp_states exploration)) []))))"

definition mock_math_reduce :: "string \<Rightarrow> string list \<Rightarrow> run" where
  "mock_math_reduce key vals = returned [(key, PList (map PStr vals))] []"

subsection \<open>ExplorationMathRichTextInfoModelGenerationOneOffJob\<close>

definition SUCCESS_KEY :: string where
  "SUCCESS_KEY = ''exploration-with-math-tags''"

primrec generation_states_loop :: "state list \<Rightarrow> string \<Rightarrow> string" where
  "generation_states_loop [] html_strings_in_exploration = html_strings_in_exploration"
| "generation_states_loop (st # rest) html_strings_in_exploration =
     generation_states_loop rest
       (html_strings_in_exploration @ concat (state_html_content_strings st))"

definition generation_map :: "env \<Rightarrow> exploration_model \<Rightarrow> run" where
  "generation_map env item =
     (if deleted item then returned [] []
      else
        (case get_exploration_from_model env item of
           Inl e \<Rightarrow> propagated [] [] e
         | Inr exploration \<Rightarrow>
             (case validate env exploration False of
                Some e \<Rightarrow>
                  (let m = ''Exploration '' @ model_id item @
                           '' failed non-strict validation: '' @ exn_str e
                   in returned [(''validation_error'', PStr m)] [LogError m])
              | None \<Rightarrow>
                  (let html_strings_in_exploration =
                         generation_states_loop (map snd (exp_states exploration)) [];
                       list_of_latex_strings_without_svg =
                         get_latex_strings_without_svg_from_html env
                           html_strings_in_exploration
                   in if length list_of_latex_strings_without_svg > 0
                      then returned
                             [(SUCCESS_KEY,
                               PTuple [PStr (model_id item),
                                       PList (map PStr list_of_latex_strings_without_svg)])] []
                      else returned [] []))))"

text \<open>
  The state of the loop of \<open>reduce\<close>. \<open>max(a, b, key=len)\<close> keeps \<open>a\<close> unless \<open>b\<close>
  is strictly longer.
\<close>

record generation_acc =
  estimated_no_of_batches :: int
  approx_size_of_math_svgs_bytes_in_current_batch :: int
  exploration_math_rich_text_info_list :: "(string \<times> bool \<times> string list) list"
  longest_raw_latex_string :: string
  total_number_of_svgs_required :: int

definition generation_step ::
    "env \<Rightarrow> generation_acc \<Rightarrow> string \<times> string list \<Rightarrow> generation_acc" where
  "generation_step env acc fv =
     (let math_rich_text_info = (fst fv, True, snd fv);
          approx_size_of_math_svgs_bytes = get_svg_size_in_bytes env math_rich_text_info;
          longest = get_longest_latex_expression env math_rich_text_info;
          in_batch = approx_size_of_math_svgs_bytes_in_current_batch acc +
                     approx_size_of_math_svgs_bytes;
          over = (in_batch > MAX_SIZE_OF_MATH_SVGS_BATCH_BYTES env)
      in \<lparr>estimated_no_of_batches =
            (if over then estimated_no_of_batches acc + 1 else estimated_no_of_batches acc),
          approx_size_of_math_svgs_bytes_in_current_batch = (if over then 0 else in_batch),
          exploration_math_rich_text_info_list =
            exploration_math_rich_text_info_list acc @ [math_rich_text_info],
          longest_raw_latex_string =
            (if length (longest_raw_latex_string acc) > length longest
             then longest_raw_latex_string acc else longest),
          total_number_of_svgs_required =
            total_number_of_svgs_required acc + int (length (snd fv))\<rparr>)"

definition generation_reduce ::
    "env \<Rightarrow> (string \<Rightarrow> exn + string \<times> string list) \<Rightarrow> string \<Rightarrow> string list \<Rightarrow> run" where
  "generation_reduce env literal_eval key vals =
     (if key = SUCCESS_KEY then
        (case eval_all literal_eval vals of
           Inl e \<Rightarrow> propagated [] [] e
         | Inr final_values \<Rightarrow>
             (let acc = foldl (generation_step env)
                          \<lparr>estimated_no_of_batches = 1,
                           approx_size_of_math_svgs_bytes_in_current_batch = 0,
                           exploration_math_rich_text_info_list = [],
                           longest_raw_latex_string = [],
                           total_number_of_svgs_required = 0\<rparr> final_values;
                  call = SaveMathRichTextInfo (exploration_math_rich_text_info_list acc)
              in (case save_multi_exploration_math_rich_text_info_model env
                         (exploration_math_rich_text_info_list acc) of
                    Some e \<Rightarrow> propagated [] [call] e
                  | None \<Rightarrow>
                      returned
                        [(key,
                          PDict [(''estimated_no_of_batches'', PInt (estimated_no_of_batches acc)),
                                 (''longest_raw_latex_string'', PStr (longest_raw_latex_string acc)),
                                 (''number_of_explorations_having_math'',
                                  PInt (int (length final_values))),
                                 (''total_number_of_svgs_required'',
                                  PInt (total_number_of_svgs_required acc))])] [call])))
      else returned [(key, PList (map PStr vals))] [])"

subsection \<open>ExplorationMathRichTextInfoModelDeletionOneOffJob\<close>

definition deletion_map :: "exploration_math_rich_text_info_model \<Rightarrow> run" where
  "deletion_map item = returned [(''model_deleted'', PInt 1)] [ModelDelete (model_id item)]"

definition deletion_reduce :: "(string \<Rightarrow> exn + int) \<Rightarrow> string \<Rightarrow> string list \<Rightarrow> run" where
  "deletion_reduce literal_eval key vals =
     (case eval_all literal_eval vals of
        Inl e \<Rightarrow> propagated [] [] e
      | Inr ns \<Rightarrow>
          (let no_of_models_deleted = sum_list ns
           in returned
                [(key, PList [PStr (str_of_int no_of_models_deleted @
                                     '' models successfully delelted.'')])] []))"

subsection \<open>ViewableExplorationsAuditJob\<close>

definition viewable_map :: "env \<Rightarrow> exploration_model \<Rightarrow> run" where
  "viewable_map env item =
     (if deleted item then returned [] []
      else
        (case get_exploration_rights env (model_id item) False of
           Inl e \<Rightarrow> propagated [] [] e
         | Inr None \<Rightarrow> returned [] []
         | Inr (Some exploration_rights) \<Rightarrow>
             if status exploration_rights = constants_ACTIVITY_STATUS_PRIVATE env
                \<and> viewable_if_private exploration_rights
             then returned [(model_id item, PStr (title item))] []
             else returned [] []))"

definition viewable_reduce :: "string \<Rightarrow> string list \<Rightarrow> run" where
  "viewable_reduce key vals = returned [(key, PList (map PStr vals))] []"

subsection \<open>HintsAuditOneOffJob\<close>

primrec hints_states_loop :: "string \<Rightarrow> (string \<times> state) list \<Rightarrow> emission list" where
  "hints_states_loop item_id [] = []"
| "hints_states_loop item_id (st # rest) =
     (let hints_length = length (hints (snd st))
      in (if hints_length > 0
          then [(str_of_int (int hints_length), PStr (item_id @ '' '' @ fst st))]
          else []) @
         hints_states_loop item_id rest)"

definition hints_map :: "env \<Rightarrow> exploration_model \<Rightarrow> run" where
  "hints_map env item =
     (if deleted item then returned [] []
      else
        (case get_exploration_from_model env item of
           Inl e \<Rightarrow> propagated [] [] e
         | Inr exploration \<Rightarrow>
             returned (hints_states_loop (model_id item) (exp_states exploration)) []))"

definition hints_reduce :: "string \<Rightarrow> string list \<Rightarrow> run" where
  "hints_reduce key vals = returned [(key, PList (map PStr vals))] []"

subsection \<open>ExplorationContentValidationJobForCKEditor\<close>

text \<open>\<open>for key in err_dict: if err_dict[key]: yield ...\<close>; an empty list is false.\<close>

primrec ckeditor_err_loop :: "string \<Rightarrow> (string \<times> string list) list \<Rightarrow> emission list" where
  "ckeditor_err_loop item_id [] = []"
| "ckeditor_err_loop item_id (kv # rest) =
     (if snd kv \<noteq> []
      then [(fst kv @ '' Exp Id: '' @ item_id, PList (map PStr (snd kv)))]
      else []) @
     ckeditor_err_loop item_id rest"

definition ckeditor_map :: "env \<Rightarrow> exploration_model \<Rightarrow> run" where
  "ckeditor_map env item =
     (if deleted item then returned [] []
      else
        (case get_exploration_from_model env item of
           Inl e \<Rightarrow>
             returned
               [(''Error '' @ exn_str e @ '' when loading exploration'',
                 PList [PStr (model_id item)])] []
         | Inr exploration \<Rightarrow>
             (let html_list = exp_html_content_strings exploration;
                  err_dict = validate_rte_format env html_list (RTE_FORMAT_CKEDITOR env)
              in returned (ckeditor_err_loop (model_id item) err_dict) [])))"

text \<open>
  \<open>list(set().union(*final_values))\<close>: the distinct elements of all the lists. Python
  leaves the order of a set's elements open; the model lists them by first occurrence.
\<close>

definition ckeditor_reduce ::
    "(string \<Rightarrow> exn + string list) \<Rightarrow> string \<Rightarrow> string list \<Rightarrow> run" where
  "ckeditor_reduce literal_eval key vals =
     (case eval_all literal_eval vals of
        Inl e \<Rightarrow> propagated [] [] e
      | Inr final_values \<Rightarrow>
          (let output_values = remdups (concat final_values);
               exp_id_index = str_find key ''Exp Id:''
           in if exp_id_index = - 1
              then returned [(key, PList (map PStr output_values))] []
              else returned
                     [(slice_to key (exp_id_index - 1),
                       PList (map PStr (output_values @ [slice_from key exp_id_index])))] []))"

subsection \<open>RTECustomizationArgsValidationOneOffJob\<close>

primrec rte_err_loop :: "string \<Rightarrow> (string \<times> string list) list \<Rightarrow> emission list" where
  "rte_err_loop item_id [] = []"
| "rte_err_loop item_id (kv # rest) =
     (let err_value_with_exp_id = snd kv @ [''Exp ID: '' @ item_id]
      in (fst kv, PList (map PStr err_value_with_exp_id)) # rte_err_loop item_id rest)"

definition rte_map :: "env \<Rightarrow> exploration_model \<Rightarrow> run" where
  "rte_map env item =
     (if deleted item then returned [] []
      else
        (case get_exploration_from_model env item of
           Inl e \<Rightarrow>
             returned
               [(''Error '' @ exn_str e @ '' when loading exploration'',
                 PList [PStr (model_id item)])] []
         | Inr exploration \<Rightarrow>
             (let html_list = exp_html_content_strings exploration;
                  err_dict = validate_customization_args env html_list
              in returned (rte_err_loop (model_id item) err_dict) [])))"

text \<open>\<open>xs[i]\<close> for \<open>i \<ge> 0\<close>: \<open>IndexError\<close> at or beyond the length.\<close>

definition py_index :: "'a list \<Rightarrow> nat \<Rightarrow> exn + 'a" where
  "py_index xs i =
     (if i < length xs then Inr (xs ! i) else Inl (IndexError ''list index out of range''))"

text \<open>
  The pairing loop of \<open>reduce\<close>. The tuple's first component,
  \<open>flattened_values[index + 1]\<close>, is evaluated first.
\<close>

function pairing_loop ::
    "string list \<Rightarrow> nat \<Rightarrow> (string \<times> string) list \<Rightarrow> exn + (string \<times> string) list" where
  "pairing_loop flattened_values index output_values =
     (if index < length flattened_values then
        (case py_index flattened_values (index + 1) of
           Inl e \<Rightarrow> Inl e
         | Inr exp_id \<Rightarrow>
             (case py_index flattened_values index of
                Inl e \<Rightarrow> Inl e
              | Inr err \<Rightarrow>
                  pairing_loop flattened_values (index + 2) (output_values @ [(exp_id, err)])))
      else Inr output_values)"
  by pat_completeness auto
termination
  by (relation "measure (\<lambda>(flattened_values, index, output_values).
                   length flattened_values - index)") auto

declare pairing_loop.simps [simp del]

definition rte_reduce ::
    "(string \<Rightarrow> exn + string list) \<Rightarrow> string \<Rightarrow> string list \<Rightarrow> run" where
  "rte_reduce literal_eval key vals =
     (case eval_all literal_eval vals of
        Inl e \<Rightarrow> propagated [] [] e
      | Inr final_values \<Rightarrow>
          (let flattened_values = concat final_values
           in if str_contains ''loading exploration'' key
              then returned [(key, PList (map PStr flattened_values))] []
              else
                (case pairing_loop flattened_values 0 [] of
                   Inl e \<Rightarrow> propagated [] [] e
                 | Inr output_values \<Rightarrow>
                     returned
                       [(key,
                         PList (map (\<lambda>p. PTuple [PStr (fst p), PStr (snd p)])
                                  (sort output_values)))] [])))"

subsection \<open>The jobs that scan ExplorationModel\<close>

text \<open>
  Ten of the twelve jobs return \<open>[exp_models.ExplorationModel]\<close> from
  \<open>entity_classes_to_map_over\<close>; the engine calls the \<open>map\<close> of the job it runs.
\<close>

datatype exploration_job =
    ExplorationValidityJobManager
  | ExplorationMigrationAuditJob
  | ExplorationMigrationJobManager
  | ExplorationMathSvgFilenameValidationOneOffJob
  | ExplorationMockMathMigrationOneOffJob
  | ExplorationMathRichTextInfoModelGenerationOneOffJob
  | ViewableExplorationsAuditJob
  | HintsAuditOneOffJob
  | ExplorationContentValidationJobForCKEditor
  | RTECustomizationArgsValidationOneOffJob

fun job_map :: "exploration_job \<Rightarrow> env \<Rightarrow> exploration_model \<Rightarrow> run" where
  "job_map ExplorationValidityJobManager = validity_map"
| "job_map ExplorationMigrationAuditJob = audit_map"
| "job_map ExplorationMigrationJobManager = migration_map"
| "job_map ExplorationMathSvgFilenameValidationOneOffJob = svg_filename_map"
| "job_map ExplorationMockMathMigrationOneOffJob = mock_math_map"
| "job_map ExplorationMathRichTextInfoModelGenerationOneOffJob = generation_map"
| "job_map ViewableExplorationsAuditJob = viewable_map"
| "job_map HintsAuditOneOffJob = hints_map"
| "job_map ExplorationContentValidationJobForCKEditor = ckeditor_map"
| "job_map RTECustomizationArgsValidationOneOffJob = rte_map"

text \<open>
  What the engine does between the two phases, as far as a claim needs it: it runs
  \<open>map\<close> on every record of the kind, collects the pairs, and hands \<open>reduce\<close> the
  values emitted under one key, each as a string (\<open>stringify\<close> is the engine's).
\<close>

definition scan :: "('r \<Rightarrow> run) \<Rightarrow> 'r list \<Rightarrow> emission list" where
  "scan mapper items = concat (map (\<lambda>item. emits (mapper item)) items)"

definition grouped :: "(pyval \<Rightarrow> string) \<Rightarrow> string \<Rightarrow> emission list \<Rightarrow> string list" where
  "grouped stringify key es = map (\<lambda>kv. stringify (snd kv)) (filter (\<lambda>kv. fst kv = key) es)"

subsection \<open>Effects that reach the document store\<close>

text \<open>
  The two logging calls write to the log. The other four calls change stored data:
  \<open>item.delete()\<close> removes the record itself, without a commit;
  \<open>exp_services.update_exploration\<close> is the versioned-write API, which commits a
  change list.
\<close>

fun is_store_write :: "effect \<Rightarrow> bool" where
  "is_store_write (LogError m) = False"
| "is_store_write (LogException m) = False"
| "is_store_write (ModelDelete i) = True"
| "is_store_write (UpdateExploration c i cmds m) = True"
| "is_store_write (UpdateFirstPublished t i msec) = True"
| "is_store_write (SaveMathRichTextInfo infos) = True"

section \<open>Concrete collaborators and records, for the instances\<close>

text \<open>
  The engine's rendering of a value as a string and \<open>ast.literal_eval\<close> on the
  renderings that the instances below meet.
\<close>

definition stringify0 :: "pyval \<Rightarrow> string" where
  "stringify0 v = (case v of PInt i \<Rightarrow> str_of_int i | PStr s \<Rightarrow> s | _ \<Rightarrow> [])"

definition literal_eval_int0 :: "string \<Rightarrow> exn + int" where
  "literal_eval_int0 s =
     (if s = ''1'' then Inr 1 else Inl (ValueError ''malformed node or string''))"

text \<open>
  An environment in which every collaborator succeeds, the current states schema
  version is 3, every exploration is public and has one state, and the CKEditor
  validation reports two categories of error.
\<close>

definition exploration0 :: exploration where
  "exploration0 =
     \<lparr>exp_states = [(''Introduction'',
                      \<lparr>state_html_content_strings = [''<p>hi</p>''], hints = []\<rparr>)],
      exp_html_content_strings = [''<p>hi</p>'']\<rparr>"

definition env0 :: env where
  "env0 =
     \<lparr>CURRENT_STATE_SCHEMA_VERSION = 3,
      MIGRATION_BOT_USERNAME = ''OppiaMigrationBot'',
      ENTITY_TYPE_EXPLORATION = ''exploration'',
      RTE_FORMAT_CKEDITOR = ''ckeditor'',
      MAX_SIZE_OF_MATH_SVGS_BATCH_BYTES = 1000,
      CMD_MIGRATE_STATES_SCHEMA_TO_LATEST_VERSION = ''migrate_states_schema_to_latest_version'',
      ACTIVITY_TYPE_EXPLORATION = ''exploration'',
      rights_manager_ACTIVITY_STATUS_PUBLIC = ''public'',
      rights_manager_ACTIVITY_STATUS_PRIVATE = ''private'',
      constants_ACTIVITY_STATUS_PRIVATE = ''private'',
      get_time_in_millisecs = (\<lambda>t. real_of_int t),
      get_exploration_from_model = (\<lambda>m. Inr exploration0),
      get_exploration_by_id = (\<lambda>i. Inr exploration0),
      get_exploration_rights =
        (\<lambda>i strict. Inr (Some \<lparr>status = ''public'', viewable_if_private = False\<rparr>)),
      validate = (\<lambda>e strict. None),
      update_states_from_model =
        (\<lambda>vs v i. Inr (vs\<lparr>vs_states_schema_version := v + 1\<rparr>)),
      update_exploration = (\<lambda>committer i cmds m. None),
      update_activity_first_published_msec = (\<lambda>t i msec. None),
      validate_svg_filenames_in_math_rich_text = (\<lambda>t i html. []),
      add_math_content_to_math_rte_components = (\<lambda>html. html),
      validate_math_tags_in_html_with_attribute_math_content = (\<lambda>html. []),
      get_latex_strings_without_svg_from_html = (\<lambda>html. []),
      validate_rte_format =
        (\<lambda>html_list fmt. [(''strings'', [''<p>hi</p>'']), (''invalidTags'', [''b''])]),
      validate_customization_args = (\<lambda>html_list. []),
      get_svg_size_in_bytes = (\<lambda>info. 0),
      get_longest_latex_expression = (\<lambda>info. []),
      save_multi_exploration_math_rich_text_info_model = (\<lambda>infos. None)\<rparr>"

text \<open>A stored exploration that is not deleted and is at states schema version 3.\<close>

definition item0 :: exploration_model where
  "item0 = \<lparr>model_id = ''exp1'', deleted = False, title = ''A title'',
             states_schema_version = 3, states = []\<rparr>"

text \<open>
  \<open>ast.literal_eval\<close> on the renderings of two lists of strings; it is not defined
  here for other strings, which this stand-in refuses.
\<close>

definition literal_eval_strs0 :: "string \<Rightarrow> exn + string list" where
  "literal_eval_strs0 s =
     (if s = ''[u'bad tag', u'Exp ID: exp1']'' then Inr [''bad tag'', ''Exp ID: exp1'']
      else if s = ''[u'exp1']'' then Inr [''exp1'']
      else Inl (ValueError ''malformed node or string''))"

text \<open>
  Two more environments: one in which every validation raises, one in which
  \<open>exp_fetchers.get_exploration_from_model\<close> raises.
\<close>

definition env_invalid :: env where
  "env_invalid = env0\<lparr>validate := (\<lambda>e strict. Some (ValidationError ''no title''))\<rparr>"

definition env_load_fails :: env where
  "env_load_fails =
     env0\<lparr>get_exploration_from_model := (\<lambda>m. Inl (Exception ''unknown interaction''))\<rparr>"

text \<open>
  \<open>ast.literal_eval\<close> on the rendering of one tuple emitted by the SVG filename job
  (\<open>svg_rendering0\<close>, a Python literal), and on the rendering of one commit time;
  these stand-ins refuse every other string.
\<close>

definition svg_rendering0 :: string where
  "svg_rendering0 =
     ''(u'exp1', [{u'state_name': u'Introduction', '' @
     ''u'error_list': [u't'], u'no_of_invalid_tags': 1}])''"

definition literal_eval_svg0 :: "string \<Rightarrow> exn + string \<times> invalid_tags_info list" where
  "literal_eval_svg0 s =
     (if s = svg_rendering0
      then Inr (''exp1'', [\<lparr>state_name = ''Introduction'', error_list = [''t''],
                             no_of_invalid_tags = 1\<rparr>])
      else Inl (ValueError ''malformed node or string''))"

definition literal_eval_float0 :: "string \<Rightarrow> exn + real" where
  "literal_eval_float0 s =
     (if s = ''1500.0'' then Inr 1500 else Inl (ValueError ''malformed node or string''))"

text \<open>
  An environment whose \<open>update_states_from_model\<close> looks at the dict: it raises on the
  states \<open>{'broken': 0}\<close> and returns on every other dict.
\<close>

definition env_picky :: env where
  "env_picky =
     env0\<lparr>update_states_from_model :=
            (\<lambda>vs v i. if vs_states vs = [(''broken'', PInt 0)]
                       then Inl (Exception ''cannot convert'')
                       else Inr (vs\<lparr>vs_states_schema_version := v + 1\<rparr>))\<rparr>"

section \<open>Helper lemmas\<close>

lemma eval_all_const:
  "(\<And>v. v \<in> set vs \<Longrightarrow> literal_eval v = Inr x) \<Longrightarrow>
   eval_all literal_eval vs = Inr (replicate (length vs) x)"
  by (induction vs) auto

lemma scan_deletion_map:
  "scan deletion_map items = replicate (length items) (''model_deleted'', PInt 1)"
  by (induction items) (simp_all add: scan_def deletion_map_def returned_def)

lemma sum_list_replicate_one: "sum_list (replicate n (1::int)) = int n"
  by (induction n) simp_all

lemmas map_defs = validity_map_def audit_map_def migration_map_def svg_filename_map_def
  mock_math_map_def generation_map_def viewable_map_def hints_map_def ckeditor_map_def rte_map_def

lemma audit_loop_done:
  "\<not> v < CURRENT_STATE_SCHEMA_VERSION env \<Longrightarrow> audit_loop env i vs v = ([], [], v)"
  by (simp add: audit_loop.simps)

lemma audit_calls_none:
  "\<not> v < CURRENT_STATE_SCHEMA_VERSION env \<Longrightarrow> audit_calls env i vs v = []"
  by (simp add: audit_calls.simps)

lemma audit_loop_calls_succeed:
  assumes "v < CURRENT_STATE_SCHEMA_VERSION env"
    and "\<forall>c \<in> set (audit_calls env i vs v).
           \<exists>vs'. update_states_from_model env (fst c) (snd c) i = Inr vs'"
  shows "audit_loop env i vs v = ([(''SUCCESS'', PInt 1)], [], CURRENT_STATE_SCHEMA_VERSION env)"
  using assms
proof (induction env i vs v rule: audit_loop.induct)
  case (1 env item_id versioned_states v)
  note lt = "1.prems"(1)
  have hd: "(versioned_states, v) \<in> set (audit_calls env item_id versioned_states v)"
    using lt by (subst audit_calls.simps) simp
  with "1.prems"(2) obtain vs' where
    st: "update_states_from_model env versioned_states v item_id = Inr vs'"
    by fastforce
  have tl: "set (audit_calls env item_id vs' (v + 1))
            \<subseteq> set (audit_calls env item_id versioned_states v)"
    using lt st by (subst (2) audit_calls.simps) auto
  show ?case
  proof (cases "v + 1 = CURRENT_STATE_SCHEMA_VERSION env")
    case True
    then have "audit_loop env item_id vs' (v + 1) = ([], [], v + 1)"
      by (simp add: audit_loop_done)
    with True st lt show ?thesis
      by (subst audit_loop.simps) simp
  next
    case False
    with lt have lt1: "v + 1 < CURRENT_STATE_SCHEMA_VERSION env" by simp
    have "audit_loop env item_id vs' (v + 1)
          = ([(''SUCCESS'', PInt 1)], [], CURRENT_STATE_SCHEMA_VERSION env)"
      using "1.IH" [OF lt st refl refl lt1] "1.prems"(2) tl by blast
    with False st lt show ?thesis
      by (subst audit_loop.simps) simp
  qed
qed

lemma audit_loop_call_raises:
  assumes "c \<in> set (audit_calls env i vs v)"
    and "update_states_from_model env (fst c) (snd c) i = Inl e"
  shows "audit_loop env i vs v =
           ([(''MIGRATION_ERROR'',
              PStr (''Exploration '' @ i @ '' failed migration to states v'' @
                    str_of_int (snd c + 1) @ '': '' @ exn_str e))],
            [LogException (''Exploration '' @ i @ '' failed migration to states v'' @
                    str_of_int (snd c + 1) @ '': '' @ exn_str e)], snd c)"
  using assms
proof (induction env i vs v rule: audit_loop.induct)
  case (1 env item_id versioned_states v)
  have lt: "v < CURRENT_STATE_SCHEMA_VERSION env"
    using "1.prems"(1) by (cases "v < CURRENT_STATE_SCHEMA_VERSION env")
      (simp_all add: audit_calls_none)
  show ?case
  proof (cases "update_states_from_model env versioned_states v item_id")
    case (Inl e')
    with lt "1.prems"(1) have c: "c = (versioned_states, v)"
      by (subst (asm) audit_calls.simps) simp
    with Inl "1.prems"(2) have "e' = e" by simp
    with Inl lt c show ?thesis
      by (subst audit_loop.simps) (simp add: Let_def)
  next
    case (Inr vs')
    with "1.prems"(2) have "c \<noteq> (versioned_states, v)" by auto
    with lt Inr "1.prems"(1) have cin: "c \<in> set (audit_calls env item_id vs' (v + 1))"
      by (subst (asm) audit_calls.simps) simp
    then have lt1: "v + 1 < CURRENT_STATE_SCHEMA_VERSION env"
      by (cases "v + 1 < CURRENT_STATE_SCHEMA_VERSION env") (simp_all add: audit_calls_none)
    from "1.IH" [OF lt Inr refl refl cin "1.prems"(2)] lt lt1 Inr show ?thesis
      by (subst audit_loop.simps) simp
  qed
qed

lemma audit_loop_emits_le_one: "length (fst (audit_loop env i vs v)) \<le> 1"
proof (induction env i vs v rule: audit_loop.induct)
  case (1 env item_id versioned_states v)
  show ?case
  proof (cases "v < CURRENT_STATE_SCHEMA_VERSION env")
    case False
    then show ?thesis by (simp add: audit_loop_done)
  next
    case lt: True
    show ?thesis
    proof (cases "update_states_from_model env versioned_states v item_id")
      case (Inl e)
      with lt show ?thesis by (subst audit_loop.simps) (simp add: Let_def)
    next
      case (Inr vs')
      show ?thesis
      proof (cases "v + 1 = CURRENT_STATE_SCHEMA_VERSION env")
        case True
        then have "audit_loop env item_id vs' (v + 1) = ([], [], v + 1)"
          by (simp add: audit_loop_done)
        with True Inr lt show ?thesis
          by (subst audit_loop.simps) simp
      next
        case False
        with "1.IH" [OF lt Inr refl refl] Inr lt show ?thesis
          by (subst audit_loop.simps) (simp add: split_beta)
      qed
    qed
  qed
qed

lemma audit_loop_only_logs:
  "f \<in> set (fst (snd (audit_loop env i vs v))) \<Longrightarrow> \<not> is_store_write f"
proof (induction env i vs v rule: audit_loop.induct)
  case (1 env item_id versioned_states v)
  show ?case
  proof (cases "v < CURRENT_STATE_SCHEMA_VERSION env")
    case False
    with "1.prems" show ?thesis by (simp add: audit_loop_done)
  next
    case lt: True
    show ?thesis
    proof (cases "update_states_from_model env versioned_states v item_id")
      case (Inl e)
      with lt "1.prems" show ?thesis
        by (subst (asm) audit_loop.simps) (auto simp add: Let_def)
    next
      case (Inr vs')
      from "1.prems" Inr lt
      have "f \<in> set (fst (snd (audit_loop env item_id vs' (v + 1))))"
        by (subst (asm) audit_loop.simps) (simp add: split_beta Let_def)
      with "1.IH" [OF lt Inr refl refl] show ?thesis by simp
    qed
  qed
qed

lemma pairing_loop_even:
  "even (length fl) \<Longrightarrow> even i \<Longrightarrow>
   pairing_loop fl i out
   = Inr (out @ map (\<lambda>k. (fl ! (2 * k + 1), fl ! (2 * k))) [i div 2 ..< length fl div 2])"
proof (induction fl i out rule: pairing_loop.induct)
  case (1 fl i out)
  show ?case
  proof (cases "i < length fl")
    case False
    with "1.prems" have "length fl div 2 \<le> i div 2" by (simp add: div_le_mono)
    with False show ?thesis by (subst pairing_loop.simps) simp
  next
    case lt: True
    with "1.prems" have lt1: "i + 1 < length fl" by presburger
    have e2: "even (i + 2)" using "1.prems" by simp
    have d: "i div 2 < length fl div 2" using lt "1.prems" by presburger
    have ix: "2 * (i div 2) = i" using "1.prems" by simp
    have "pairing_loop fl (i + 2) (out @ [(fl ! (i + 1), fl ! i)])
          = Inr ((out @ [(fl ! (i + 1), fl ! i)]) @
                 map (\<lambda>k. (fl ! (2 * k + 1), fl ! (2 * k))) [(i + 2) div 2 ..< length fl div 2])"
      using "1.IH" [OF lt _ _ "1.prems"(1) e2, of "fl ! (i + 1)" "fl ! i"] lt lt1
      by (simp add: py_index_def)
    moreover have "[i div 2 ..< length fl div 2] = (i div 2) # [(i + 2) div 2 ..< length fl div 2]"
      using d by (simp add: upt_conv_Cons)
    ultimately show ?thesis
      using lt lt1 ix by (subst pairing_loop.simps) (simp add: py_index_def)
  qed
qed

lemma pairing_loop_odd:
  "odd (length fl) \<Longrightarrow> even i \<Longrightarrow> i \<le> length fl \<Longrightarrow>
   pairing_loop fl i out = Inl (IndexError ''list index out of range'')"
proof (induction fl i out rule: pairing_loop.induct)
  case (1 fl i out)
  from "1.prems" have lt: "i < length fl" by (metis le_neq_implies_less)
  show ?case
  proof (cases "i + 1 < length fl")
    case False
    with lt show ?thesis by (subst pairing_loop.simps) (simp add: py_index_def)
  next
    case True
    have e2: "even (i + 2)" using "1.prems" by simp
    have "pairing_loop fl (i + 2) (out @ [(fl ! (i + 1), fl ! i)])
          = Inl (IndexError ''list index out of range'')"
      using "1.IH" [OF lt _ _ "1.prems"(1) e2, of "fl ! (i + 1)" "fl ! i"] lt True
      by (simp add: py_index_def)
    then show ?thesis
      using lt True by (subst pairing_loop.simps) (simp add: py_index_def)
  qed
qed

lemma validity_effects: "effects (validity_map env item) = []"
  by (simp add: validity_map_def returned_def propagated_def
           split: sum.splits option.splits exn.splits)

lemma svg_filename_effects: "effects (svg_filename_map env item) = []"
  by (simp add: svg_filename_map_def returned_def propagated_def Let_def split: sum.splits)

lemma mock_math_effects: "effects (mock_math_map env item) = []"
  by (simp add: mock_math_map_def returned_def propagated_def split: sum.splits)

lemma viewable_effects: "effects (viewable_map env item) = []"
  by (simp add: viewable_map_def returned_def propagated_def split: sum.splits option.splits)

lemma hints_effects: "effects (hints_map env item) = []"
  by (simp add: hints_map_def returned_def propagated_def split: sum.splits)

lemma ckeditor_effects: "effects (ckeditor_map env item) = []"
  by (simp add: ckeditor_map_def returned_def Let_def split: sum.splits)

lemma rte_effects: "effects (rte_map env item) = []"
  by (simp add: rte_map_def returned_def Let_def split: sum.splits)

lemma generation_effects:
  "f \<in> set (effects (generation_map env item)) \<Longrightarrow> \<not> is_store_write f"
  by (auto simp add: generation_map_def returned_def propagated_def Let_def
           split: sum.splits option.splits if_splits)

lemma audit_effects:
  "f \<in> set (effects (audit_map env item)) \<Longrightarrow> \<not> is_store_write f"
  using audit_loop_only_logs
  by (auto simp add: audit_map_def returned_def Let_def split_beta split: if_splits)

lemma migration_effects:
  "f \<in> set (effects (migration_map env item)) \<Longrightarrow> is_store_write f \<Longrightarrow>
   f = UpdateExploration (MIGRATION_BOT_USERNAME env) (model_id item)
         [\<lparr>cmd = CMD_MIGRATE_STATES_SCHEMA_TO_LATEST_VERSION env,
           from_version = str_of_int (states_schema_version item),
           to_version = str_of_int (CURRENT_STATE_SCHEMA_VERSION env)\<rparr>]
         (''Update exploration states from schema version '' @
          str_of_int (states_schema_version item) @ '' to '' @
          str_of_int (CURRENT_STATE_SCHEMA_VERSION env) @ ''.'')"
  by (auto simp add: migration_map_def returned_def propagated_def Let_def
           split: sum.splits option.splits if_splits)

lemma audit_loop_outcome:
  "v < CURRENT_STATE_SCHEMA_VERSION env \<Longrightarrow>
   audit_loop env i vs v = ([(''SUCCESS'', PInt 1)], [], CURRENT_STATE_SCHEMA_VERSION env)
   \<or> (\<exists>u e vs'. v \<le> u \<and> u < CURRENT_STATE_SCHEMA_VERSION env \<and>
         update_states_from_model env vs' u i = Inl e \<and>
         audit_loop env i vs v =
           ([(''MIGRATION_ERROR'',
              PStr (''Exploration '' @ i @ '' failed migration to states v'' @
                    str_of_int (u + 1) @ '': '' @ exn_str e))],
            [LogException (''Exploration '' @ i @ '' failed migration to states v'' @
                    str_of_int (u + 1) @ '': '' @ exn_str e)], u))"
proof (induction env i vs v rule: audit_loop.induct)
  case (1 env item_id versioned_states v)
  note lt = "1.prems"
  show ?case
  proof (cases "update_states_from_model env versioned_states v item_id")
    case (Inl e)
    have "audit_loop env item_id versioned_states v =
           ([(''MIGRATION_ERROR'',
              PStr (''Exploration '' @ item_id @ '' failed migration to states v'' @
                    str_of_int (v + 1) @ '': '' @ exn_str e))],
            [LogException (''Exploration '' @ item_id @ '' failed migration to states v'' @
                    str_of_int (v + 1) @ '': '' @ exn_str e)], v)"
      using lt Inl by (subst audit_loop.simps) (simp add: Let_def)
    with lt Inl show ?thesis by blast
  next
    case (Inr vs')
    show ?thesis
    proof (cases "v + 1 = CURRENT_STATE_SCHEMA_VERSION env")
      case True
      then have "audit_loop env item_id vs' (v + 1) = ([], [], v + 1)"
        by (simp add: audit_loop_done)
      with True Inr lt have "audit_loop env item_id versioned_states v
           = ([(''SUCCESS'', PInt 1)], [], CURRENT_STATE_SCHEMA_VERSION env)"
        by (subst audit_loop.simps) simp
      then show ?thesis by blast
    next
      case False
      with lt have lt1: "v + 1 < CURRENT_STATE_SCHEMA_VERSION env" by simp
      have eq: "audit_loop env item_id versioned_states v = audit_loop env item_id vs' (v + 1)"
        using False Inr lt by (subst audit_loop.simps) (simp add: split_beta)
      from "1.IH" [OF lt Inr refl refl lt1] show ?thesis
      proof
        assume "audit_loop env item_id vs' (v + 1)
                = ([(''SUCCESS'', PInt 1)], [], CURRENT_STATE_SCHEMA_VERSION env)"
        with eq show ?thesis by simp
      next
        assume "\<exists>u e vs''. v + 1 \<le> u \<and> u < CURRENT_STATE_SCHEMA_VERSION env \<and>
         update_states_from_model env vs'' u item_id = Inl e \<and>
         audit_loop env item_id vs' (v + 1) =
           ([(''MIGRATION_ERROR'',
              PStr (''Exploration '' @ item_id @ '' failed migration to states v'' @
                    str_of_int (u + 1) @ '': '' @ exn_str e))],
            [LogException (''Exploration '' @ item_id @ '' failed migration to states v'' @
                    str_of_int (u + 1) @ '': '' @ exn_str e)], u)"
        then obtain u e vs'' where
          "v + 1 \<le> u" "u < CURRENT_STATE_SCHEMA_VERSION env"
          "update_states_from_model env vs'' u item_id = Inl e"
          "audit_loop env item_id vs' (v + 1) =
           ([(''MIGRATION_ERROR'',
              PStr (''Exploration '' @ item_id @ '' failed migration to states v'' @
                    str_of_int (u + 1) @ '': '' @ exn_str e))],
            [LogException (''Exploration '' @ item_id @ '' failed migration to states v'' @
                    str_of_int (u + 1) @ '': '' @ exn_str e)], u)"
          by blast
        with eq have "v \<le> u \<and> u < CURRENT_STATE_SCHEMA_VERSION env \<and>
          update_states_from_model env vs'' u item_id = Inl e \<and>
          audit_loop env item_id versioned_states v =
           ([(''MIGRATION_ERROR'',
              PStr (''Exploration '' @ item_id @ '' failed migration to states v'' @
                    str_of_int (u + 1) @ '': '' @ exn_str e))],
            [LogException (''Exploration '' @ item_id @ '' failed migration to states v'' @
                    str_of_int (u + 1) @ '': '' @ exn_str e)], u)"
          by simp
        then show ?thesis by blast
      qed
    qed
  qed
qed

lemma audit_map_emits_le_one: "length (emits (audit_map env item)) \<le> 1"
  using audit_loop_emits_le_one [of env "model_id item"]
  by (simp add: audit_map_def returned_def Let_def split_beta)

lemma validity_emits_le_one: "length (emits (validity_map env item)) \<le> 1"
  by (simp add: validity_map_def returned_def propagated_def
           split: sum.splits option.splits exn.splits)

lemma migration_emits_le_one: "length (emits (migration_map env item)) \<le> 1"
  by (simp add: migration_map_def returned_def propagated_def Let_def
           split: sum.splits option.splits)

lemma svg_filename_emits_le_one: "length (emits (svg_filename_map env item)) \<le> 1"
  by (simp add: svg_filename_map_def returned_def propagated_def Let_def split: sum.splits)

lemma generation_emits_le_one: "length (emits (generation_map env item)) \<le> 1"
  by (simp add: generation_map_def returned_def propagated_def Let_def
           split: sum.splits option.splits)

lemma viewable_emits_le_one: "length (emits (viewable_map env item)) \<le> 1"
  by (simp add: viewable_map_def returned_def propagated_def split: sum.splits option.splits)

lemma length_ckeditor_err_loop:
  "length (ckeditor_err_loop i d) = length (filter (\<lambda>kv. snd kv \<noteq> []) d)"
  by (induction d) simp_all

lemma length_rte_err_loop: "length (rte_err_loop i d) = length d"
  by (induction d) (simp_all add: Let_def)

lemma audit_map_fates:
  "emits (audit_map env item) = []
   \<or> emits (audit_map env item) = [(''SUCCESS'', PInt 1)]
   \<or> (\<exists>m. emits (audit_map env item) = [(''MIGRATION_ERROR'', PStr m)])"
proof (cases "\<not> deleted item \<and> states_schema_version item < CURRENT_STATE_SCHEMA_VERSION env")
  case False
  then show ?thesis
    by (auto simp add: audit_map_def returned_def audit_loop_done)
next
  case True
  from audit_loop_outcome [of "states_schema_version item" env "model_id item"
      "\<lparr>vs_states_schema_version = states_schema_version item, vs_states = states item\<rparr>"] True
  show ?thesis
    by (auto simp add: audit_map_def returned_def)
qed

lemma generation_fates:
  "emits (generation_map env item) = []
   \<or> (\<exists>v. emits (generation_map env item) = [(SUCCESS_KEY, v)])
   \<or> (\<exists>m. emits (generation_map env item) = [(''validation_error'', PStr m)])"
  by (simp add: generation_map_def returned_def propagated_def Let_def
           split: sum.splits option.splits)

lemma rte_reduce_one:
  "eval_all literal_eval vals = Inr final_values \<Longrightarrow>
   str_contains ''loading exploration'' key \<or> even (length (concat final_values)) \<Longrightarrow>
   \<exists>aggregate. rte_reduce literal_eval key vals = returned [(key, aggregate)] []"
  using pairing_loop_even [of "concat final_values" 0 "[]"]
  by (auto simp add: rte_reduce_def Let_def)

section \<open>The claims\<close>

text \<open>
  C1, as amended. The ten jobs that scan ExplorationModel records start their \<open>map\<close>
  with \<open>if item.deleted: return\<close>: on a soft-deleted record they emit nothing, have no
  effect and raise nothing. The other two jobs never read the flag: the deletion job
  deletes every record it is given and emits \<open>('model_deleted', 1)\<close> for it, and the
  first-published job does the same for a snapshot whatever its flag says.
\<close>

theorem soft_deleted_exploration_is_noop:
  "(deleted item \<longrightarrow> job_map j env item = returned [] [])
   \<and> deletion_map ditem = returned [(''model_deleted'', PInt 1)] [ModelDelete (model_id ditem)]
   \<and> first_published_map env (sitem\<lparr>deleted := b\<rparr>) = first_published_map env sitem"
proof -
  have a: "deleted item \<longrightarrow> job_map j env item = returned [] []"
    by (cases j) (simp_all add: map_defs)
  have b: "deletion_map ditem
           = returned [(''model_deleted'', PInt 1)] [ModelDelete (model_id ditem)]"
    by (simp add: deletion_map_def)
  have c: "first_published_map env (sitem\<lparr>deleted := b\<rparr>) = first_published_map env sitem"
    by (simp add: first_published_map_def split: option.splits)
  from a b c show ?thesis by blast
qed

theorem soft_deleted_exploration_is_noop_witness:
  "job_map ExplorationMigrationJobManager env0 (item0\<lparr>deleted := True\<rparr>) = returned [] []"
  using soft_deleted_exploration_is_noop
          [of "item0\<lparr>deleted := True\<rparr>" ExplorationMigrationJobManager env0]
  by simp

text \<open>
  C1 as stated fails for the deletion job: on a record whose deletion flag is set, its
  \<open>map\<close> emits a pair and deletes the record.
\<close>

theorem soft_deleted_noop_counterexample:
  "deleted \<lparr>model_id = ''m1'', deleted = True, latex_strings_without_svg = []\<rparr>
   \<and> emits (deletion_map \<lparr>model_id = ''m1'', deleted = True, latex_strings_without_svg = []\<rparr>)
       = [(''model_deleted'', PInt 1)]
   \<and> effects (deletion_map \<lparr>model_id = ''m1'', deleted = True, latex_strings_without_svg = []\<rparr>)
       = [ModelDelete ''m1'']"
  by (simp add: deletion_map_def returned_def)

text \<open>
  C2, as amended. For every key and every list of values: the \<open>reduce\<close> of the
  validity, migration audit, migration, mock math, viewable and hints jobs yields exactly
  one pair, under the key it was given. So does the \<open>reduce\<close> of the generation job
  (for its success key: when the values parse and the save succeeds), of the deletion
  job (when the values parse) and of the RTE job (when the values parse and either the
  key contains \<open>'loading exploration'\<close> or the flattened list has even length). The
  \<open>reduce\<close> of the CKEditor job yields exactly one pair when the values parse: under
  the given key when \<open>i = key.find('Exp Id:')\<close> is \<open>-1\<close>, and otherwise under
  \<open>key[:i - 1]\<close>, the key up to but not including the character before
  \<open>'Exp Id:'\<close> (for \<open>i = 0\<close> that is \<open>key[:-1]\<close>). The \<open>reduce\<close> of the SVG
  filename job yields exactly two pairs when the values parse, under two fixed keys.
  The \<open>reduce\<close> of the first-published job yields nothing: without rights for the
  key it returns with no effect, and with rights, parsed values that are not empty and
  a successful update, its one effect is the call of
  \<open>update_activity_first_published_msec\<close> with the least of the times.
\<close>

theorem reduce_outputs:
  "validity_reduce key vals = returned [(key, PList (map PStr vals))] []
   \<and> audit_reduce key vals
     = returned [(key, if key = ''SUCCESS'' then PInt (int (length vals))
                       else PList (map PStr vals))] []
   \<and> migration_reduce key vals = returned [(key, PInt (int (length vals)))] []
   \<and> mock_math_reduce key vals = returned [(key, PList (map PStr vals))] []
   \<and> viewable_reduce key vals = returned [(key, PList (map PStr vals))] []
   \<and> hints_reduce key vals = returned [(key, PList (map PStr vals))] []
   \<and> (key \<noteq> SUCCESS_KEY \<longrightarrow>
        generation_reduce env literal_eval_pair key vals
        = returned [(key, PList (map PStr vals))] [])
   \<and> (key = SUCCESS_KEY \<and> eval_all literal_eval_pair vals = Inr pairs \<and>
       save_multi_exploration_math_rich_text_info_model env
         (exploration_math_rich_text_info_list
            (foldl (generation_step env)
               \<lparr>estimated_no_of_batches = 1,
                approx_size_of_math_svgs_bytes_in_current_batch = 0,
                exploration_math_rich_text_info_list = [],
                longest_raw_latex_string = [],
                total_number_of_svgs_required = 0\<rparr> pairs)) = None \<longrightarrow>
        (\<exists>aggregate. emits (generation_reduce env literal_eval_pair key vals) = [(key, aggregate)])
        \<and> raised (generation_reduce env literal_eval_pair key vals) = None)
   \<and> (eval_all literal_eval_int vals = Inr ns \<longrightarrow>
        deletion_reduce literal_eval_int key vals
        = returned [(key, PList [PStr (str_of_int (sum_list ns) @
                                       '' models successfully delelted.'')])] [])
   \<and> (eval_all literal_eval_strs vals = Inr str_lists \<and>
       (str_contains ''loading exploration'' key \<or> even (length (concat str_lists))) \<longrightarrow>
        (\<exists>aggregate. rte_reduce literal_eval_strs key vals = returned [(key, aggregate)] []))
   \<and> (eval_all literal_eval_strs vals = Inr str_lists \<longrightarrow>
        (\<exists>aggregate.
           ckeditor_reduce literal_eval_strs key vals
           = returned [(if str_find key ''Exp Id:'' = - 1 then key
                        else slice_to key (str_find key ''Exp Id:'' - 1), aggregate)] []))
   \<and> (eval_all literal_eval_info vals = Inr infos \<longrightarrow>
        (\<exists>overall detailed.
           svg_filename_reduce literal_eval_info key vals
           = returned [(''Overall result.'', overall),
                       (''Detailed information on invalid tags. '', detailed)] []))
   \<and> emits (first_published_reduce env literal_eval_float key vals) = []
   \<and> (get_exploration_rights env key False = Inr None \<longrightarrow>
        first_published_reduce env literal_eval_float key vals = returned [] [])
   \<and> (get_exploration_rights env key False = Inr (Some rights) \<and>
       eval_all literal_eval_float vals = Inr msecs \<and> msecs \<noteq> [] \<and>
       update_activity_first_published_msec env (ACTIVITY_TYPE_EXPLORATION env) key
         (Min (set msecs)) = None \<longrightarrow>
        first_published_reduce env literal_eval_float key vals
        = returned [] [UpdateFirstPublished (ACTIVITY_TYPE_EXPLORATION env) key
                         (Min (set msecs))])"
proof -
  have p: "validity_reduce key vals = returned [(key, PList (map PStr vals))] []
   \<and> audit_reduce key vals
     = returned [(key, if key = ''SUCCESS'' then PInt (int (length vals))
                       else PList (map PStr vals))] []
   \<and> migration_reduce key vals = returned [(key, PInt (int (length vals)))] []
   \<and> mock_math_reduce key vals = returned [(key, PList (map PStr vals))] []
   \<and> viewable_reduce key vals = returned [(key, PList (map PStr vals))] []
   \<and> hints_reduce key vals = returned [(key, PList (map PStr vals))] []"
    by (simp add: validity_reduce_def audit_reduce_def migration_reduce_def mock_math_reduce_def
          viewable_reduce_def hints_reduce_def)
  have g1: "key \<noteq> SUCCESS_KEY \<longrightarrow>
        generation_reduce env literal_eval_pair key vals
        = returned [(key, PList (map PStr vals))] []"
    by (simp add: generation_reduce_def)
  have g2: "key = SUCCESS_KEY \<and> eval_all literal_eval_pair vals = Inr pairs \<and>
       save_multi_exploration_math_rich_text_info_model env
         (exploration_math_rich_text_info_list
            (foldl (generation_step env)
               \<lparr>estimated_no_of_batches = 1,
                approx_size_of_math_svgs_bytes_in_current_batch = 0,
                exploration_math_rich_text_info_list = [],
                longest_raw_latex_string = [],
                total_number_of_svgs_required = 0\<rparr> pairs)) = None \<longrightarrow>
        (\<exists>aggregate. emits (generation_reduce env literal_eval_pair key vals) = [(key, aggregate)])
        \<and> raised (generation_reduce env literal_eval_pair key vals) = None"
    by (simp add: generation_reduce_def Let_def returned_def)
  have d: "eval_all literal_eval_int vals = Inr ns \<longrightarrow>
        deletion_reduce literal_eval_int key vals
        = returned [(key, PList [PStr (str_of_int (sum_list ns) @
                                       '' models successfully delelted.'')])] []"
    by (simp add: deletion_reduce_def)
  have r: "eval_all literal_eval_strs vals = Inr str_lists \<and>
       (str_contains ''loading exploration'' key \<or> even (length (concat str_lists))) \<longrightarrow>
        (\<exists>aggregate. rte_reduce literal_eval_strs key vals = returned [(key, aggregate)] [])"
    using rte_reduce_one by blast
  have c: "eval_all literal_eval_strs vals = Inr str_lists \<longrightarrow>
        (\<exists>aggregate.
           ckeditor_reduce literal_eval_strs key vals
           = returned [(if str_find key ''Exp Id:'' = - 1 then key
                        else slice_to key (str_find key ''Exp Id:'' - 1), aggregate)] [])"
    by (auto simp add: ckeditor_reduce_def Let_def)
  have s: "eval_all literal_eval_info vals = Inr infos \<longrightarrow>
        (\<exists>overall detailed.
           svg_filename_reduce literal_eval_info key vals
           = returned [(''Overall result.'', overall),
                       (''Detailed information on invalid tags. '', detailed)] [])"
    by (auto simp add: svg_filename_reduce_def Let_def)
  have f: "emits (first_published_reduce env literal_eval_float key vals) = []"
    by (simp add: first_published_reduce_def returned_def propagated_def
          split: sum.splits option.splits)
  have f2: "get_exploration_rights env key False = Inr None \<longrightarrow>
        first_published_reduce env literal_eval_float key vals = returned [] []"
    by (simp add: first_published_reduce_def)
  have f3: "get_exploration_rights env key False = Inr (Some rights) \<and>
       eval_all literal_eval_float vals = Inr msecs \<and> msecs \<noteq> [] \<and>
       update_activity_first_published_msec env (ACTIVITY_TYPE_EXPLORATION env) key
         (Min (set msecs)) = None \<longrightarrow>
        first_published_reduce env literal_eval_float key vals
        = returned [] [UpdateFirstPublished (ACTIVITY_TYPE_EXPLORATION env) key
                         (Min (set msecs))]"
  proof (cases msecs)
    case Nil
    then show ?thesis by simp
  next
    case (Cons t ts)
    have "Min (set (t # ts)) = fold min ts t"
      by (rule Min.set_eq_fold)
    with Cons have "py_min msecs = Inr (Min (set msecs))"
      by (simp add: py_min_def)
    then show ?thesis
      by (simp add: first_published_reduce_def)
  qed
  from p g1 g2 d r c s f f2 f3 show ?thesis by blast
qed

theorem reduce_outputs_witness:
  "deletion_reduce literal_eval_int0 ''model_deleted'' [''1'', ''1'', ''1'']
   = returned [(''model_deleted'', PList [PStr ''3 models successfully delelted.''])] []"
proof -
  have h: "eval_all literal_eval_int0 [''1'', ''1'', ''1''] = Inr [1, 1, 1]"
    by (simp add: literal_eval_int0_def)
  have d: "deletion_reduce literal_eval_int0 ''model_deleted'' [''1'', ''1'', ''1'']
        = returned [(''model_deleted'', PList [PStr (str_of_int (sum_list [1, 1, 1]) @
                                       '' models successfully delelted.'')])] []"
    using reduce_outputs [where key = "''model_deleted''" and vals = "[''1'', ''1'', ''1'']"
        and literal_eval_int = literal_eval_int0 and ns = "[1, 1, 1]"] h
    by blast
  then show ?thesis
    by (simp add: str_of_int_def str_of_nat.simps digit_char_def)
qed

text \<open>
  C2 as stated fails on non-empty lists of values: the first-published job's
  \<open>reduce\<close> updates the rights store and yields no pair, and the SVG filename job's
  \<open>reduce\<close> yields two pairs, neither under the key it was given.
\<close>

theorem reduce_outputs_counterexample:
  "emits (first_published_reduce env0 literal_eval_float0 ''exp1'' [''1500.0'']) = []
   \<and> effects (first_published_reduce env0 literal_eval_float0 ''exp1'' [''1500.0''])
     = [UpdateFirstPublished ''exploration'' ''exp1'' 1500]
   \<and> emits (svg_filename_reduce literal_eval_svg0 ''Found invalid tags''
        [svg_rendering0])
     = [(''Overall result.'',
         PDict [(''no_of_explorations_with_no_svgs'', PInt 1), (''no_of_invalid_tags'', PInt 1)]),
        (''Detailed information on invalid tags. '',
         PDict [(''exp1'', PList [PDict [(''state_name'', PStr ''Introduction''),
                                         (''error_list'', PList [PStr ''t''])]])])]"
  by (simp add: first_published_reduce_def svg_filename_reduce_def env0_def
        literal_eval_float0_def literal_eval_svg0_def py_min_def returned_def)

text \<open>
  C3, as amended, for a record that is not deleted. Caught and reported as one pair,
  with nothing raised: a \<open>ValidationError\<close> of \<open>validate\<close> in the validity job
  (under the exploration id); a call of \<open>update_states_from_model\<close> that raises in the
  audit job (under \<open>MIGRATION_ERROR\<close>, also logged; the audit \<open>map\<close> never raises);
  a raising non-strict validation in the generation job (under \<open>validation_error\<close>,
  also logged); a raising exploration load in the CKEditor and RTE jobs (under
  \<open>Error ... when loading exploration\<close>). Caught, logged and not reported as a pair:
  a raising non-strict validation in the migration job. Not caught, so leaving
  \<open>map\<close>: a raising exploration load in the validity, SVG filename, mock math,
  generation, hints and migration jobs; a raising rights load in the validity, mock math
  and viewable jobs; an exception of \<open>validate\<close> other than \<open>ValidationError\<close> in the
  validity job; a raising \<open>update_exploration\<close> in the migration job.
\<close>

theorem failures_in_map:
  assumes "\<not> deleted item"
  shows
    "(get_exploration_from_model env item = Inr exploration \<and>
      get_exploration_rights env (model_id item) True = Inr (Some rights) \<and>
      validate env exploration (status rights \<noteq> rights_manager_ACTIVITY_STATUS_PRIVATE env)
        = Some (ValidationError m) \<longrightarrow>
      validity_map env item = returned [(model_id item, PStr m)] [])
   \<and> (get_exploration_from_model env item = Inr exploration \<and>
      get_exploration_rights env (model_id item) True = Inr (Some rights) \<and>
      validate env exploration (status rights \<noteq> rights_manager_ACTIVITY_STATUS_PRIVATE env)
        = Some e \<and> (\<forall>m. e \<noteq> ValidationError m) \<longrightarrow>
      validity_map env item = propagated [] [] e)
   \<and> raised (audit_map env item) = None
   \<and> (c \<in> set (audit_calls env (model_id item)
                \<lparr>vs_states_schema_version = states_schema_version item,
                 vs_states = states item\<rparr>
                (states_schema_version item)) \<and>
      update_states_from_model env (fst c) (snd c) (model_id item) = Inl e \<longrightarrow>
      audit_map env item
      = returned
          [(''MIGRATION_ERROR'',
            PStr (''Exploration '' @ model_id item @ '' failed migration to states v'' @
                  str_of_int (snd c + 1) @ '': '' @ exn_str e))]
          [LogException
             (''Exploration '' @ model_id item @ '' failed migration to states v'' @
              str_of_int (snd c + 1) @ '': '' @ exn_str e)])
   \<and> (get_exploration_from_model env item = Inr exploration \<and>
      validate env exploration False = Some e \<longrightarrow>
      generation_map env item
      = returned
          [(''validation_error'',
            PStr (''Exploration '' @ model_id item @ '' failed non-strict validation: '' @
                  exn_str e))]
          [LogError (''Exploration '' @ model_id item @ '' failed non-strict validation: '' @
                     exn_str e)])
   \<and> (get_exploration_from_model env item = Inl e \<longrightarrow>
      ckeditor_map env item
      = returned [(''Error '' @ exn_str e @ '' when loading exploration'',
                   PList [PStr (model_id item)])] []
      \<and> rte_map env item
      = returned [(''Error '' @ exn_str e @ '' when loading exploration'',
                   PList [PStr (model_id item)])] [])
   \<and> (get_exploration_by_id env (model_id item) = Inr exploration \<and>
      validate env exploration False = Some e \<longrightarrow>
      migration_map env item
      = returned []
          [LogError (''Exploration '' @ model_id item @ '' failed non-strict validation: '' @
                     exn_str e)])
   \<and> (get_exploration_from_model env item = Inl e \<longrightarrow>
      validity_map env item = propagated [] [] e
      \<and> svg_filename_map env item = propagated [] [] e
      \<and> mock_math_map env item = propagated [] [] e
      \<and> generation_map env item = propagated [] [] e
      \<and> hints_map env item = propagated [] [] e)
   \<and> (get_exploration_by_id env (model_id item) = Inl e \<longrightarrow>
      migration_map env item = propagated [] [] e)
   \<and> (get_exploration_from_model env item = Inr exploration \<and>
      get_exploration_rights env (model_id item) True = Inl e \<longrightarrow>
      validity_map env item = propagated [] [] e
      \<and> mock_math_map env item = propagated [] [] e)
   \<and> (get_exploration_rights env (model_id item) False = Inl e \<longrightarrow>
      viewable_map env item = propagated [] [] e)
   \<and> (get_exploration_by_id env (model_id item) = Inr exploration \<and>
      validate env exploration False = None \<and>
      states_schema_version item \<noteq> CURRENT_STATE_SCHEMA_VERSION env \<and>
      update_exploration env (MIGRATION_BOT_USERNAME env) (model_id item)
        [\<lparr>cmd = CMD_MIGRATE_STATES_SCHEMA_TO_LATEST_VERSION env,
          from_version = str_of_int (states_schema_version item),
          to_version = str_of_int (CURRENT_STATE_SCHEMA_VERSION env)\<rparr>]
        (''Update exploration states from schema version '' @
         str_of_int (states_schema_version item) @ '' to '' @
         str_of_int (CURRENT_STATE_SCHEMA_VERSION env) @ ''.'') = Some e \<longrightarrow>
      raised (migration_map env item) = Some e \<and> emits (migration_map env item) = [])"
proof -
  have v: "get_exploration_from_model env item = Inr exploration \<and>
      get_exploration_rights env (model_id item) True = Inr (Some rights) \<and>
      validate env exploration (status rights \<noteq> rights_manager_ACTIVITY_STATUS_PRIVATE env)
        = Some (ValidationError m) \<longrightarrow>
      validity_map env item = returned [(model_id item, PStr m)] []"
    using assms by (auto simp add: validity_map_def attr_status_def)
  have v2: "get_exploration_from_model env item = Inr exploration \<and>
      get_exploration_rights env (model_id item) True = Inr (Some rights) \<and>
      validate env exploration (status rights \<noteq> rights_manager_ACTIVITY_STATUS_PRIVATE env)
        = Some e \<and> (\<forall>m. e \<noteq> ValidationError m) \<longrightarrow>
      validity_map env item = propagated [] [] e"
    using assms by (cases e) (auto simp add: validity_map_def attr_status_def)
  have a1: "raised (audit_map env item) = None"
    by (simp add: audit_map_def returned_def Let_def split_beta)
  have a2: "c \<in> set (audit_calls env (model_id item)
                \<lparr>vs_states_schema_version = states_schema_version item,
                 vs_states = states item\<rparr>
                (states_schema_version item)) \<and>
      update_states_from_model env (fst c) (snd c) (model_id item) = Inl e \<longrightarrow>
      audit_map env item
      = returned
          [(''MIGRATION_ERROR'',
            PStr (''Exploration '' @ model_id item @ '' failed migration to states v'' @
                  str_of_int (snd c + 1) @ '': '' @ exn_str e))]
          [LogException
             (''Exploration '' @ model_id item @ '' failed migration to states v'' @
              str_of_int (snd c + 1) @ '': '' @ exn_str e)]"
    using assms audit_loop_call_raises [of c env "model_id item"
        "\<lparr>vs_states_schema_version = states_schema_version item, vs_states = states item\<rparr>"
        "states_schema_version item" e]
    by (auto simp add: audit_map_def)
  have g: "get_exploration_from_model env item = Inr exploration \<and>
      validate env exploration False = Some e \<longrightarrow>
      generation_map env item
      = returned
          [(''validation_error'',
            PStr (''Exploration '' @ model_id item @ '' failed non-strict validation: '' @
                  exn_str e))]
          [LogError (''Exploration '' @ model_id item @ '' failed non-strict validation: '' @
                     exn_str e)]"
    using assms by (simp add: generation_map_def Let_def)
  have c: "get_exploration_from_model env item = Inl e \<longrightarrow>
      ckeditor_map env item
      = returned [(''Error '' @ exn_str e @ '' when loading exploration'',
                   PList [PStr (model_id item)])] []
      \<and> rte_map env item
      = returned [(''Error '' @ exn_str e @ '' when loading exploration'',
                   PList [PStr (model_id item)])] []"
    using assms by (simp add: ckeditor_map_def rte_map_def)
  have mg: "get_exploration_by_id env (model_id item) = Inr exploration \<and>
      validate env exploration False = Some e \<longrightarrow>
      migration_map env item
      = returned []
          [LogError (''Exploration '' @ model_id item @ '' failed non-strict validation: '' @
                     exn_str e)]"
    using assms by (simp add: migration_map_def)
  have p: "get_exploration_from_model env item = Inl e \<longrightarrow>
      validity_map env item = propagated [] [] e
      \<and> svg_filename_map env item = propagated [] [] e
      \<and> mock_math_map env item = propagated [] [] e
      \<and> generation_map env item = propagated [] [] e
      \<and> hints_map env item = propagated [] [] e"
    using assms
    by (simp add: validity_map_def svg_filename_map_def mock_math_map_def generation_map_def
          hints_map_def)
  have pm: "get_exploration_by_id env (model_id item) = Inl e \<longrightarrow>
      migration_map env item = propagated [] [] e"
    using assms by (simp add: migration_map_def)
  have pr: "get_exploration_from_model env item = Inr exploration \<and>
      get_exploration_rights env (model_id item) True = Inl e \<longrightarrow>
      validity_map env item = propagated [] [] e
      \<and> mock_math_map env item = propagated [] [] e"
    using assms by (simp add: validity_map_def mock_math_map_def)
  have pv: "get_exploration_rights env (model_id item) False = Inl e \<longrightarrow>
      viewable_map env item = propagated [] [] e"
    using assms by (simp add: viewable_map_def)
  have w: "get_exploration_by_id env (model_id item) = Inr exploration \<and>
      validate env exploration False = None \<and>
      states_schema_version item \<noteq> CURRENT_STATE_SCHEMA_VERSION env \<and>
      update_exploration env (MIGRATION_BOT_USERNAME env) (model_id item)
        [\<lparr>cmd = CMD_MIGRATE_STATES_SCHEMA_TO_LATEST_VERSION env,
          from_version = str_of_int (states_schema_version item),
          to_version = str_of_int (CURRENT_STATE_SCHEMA_VERSION env)\<rparr>]
        (''Update exploration states from schema version '' @
         str_of_int (states_schema_version item) @ '' to '' @
         str_of_int (CURRENT_STATE_SCHEMA_VERSION env) @ ''.'') = Some e \<longrightarrow>
      raised (migration_map env item) = Some e \<and> emits (migration_map env item) = []"
    using assms by (simp add: migration_map_def Let_def propagated_def)
  from v v2 a1 a2 g c mg p pm pr pv w show ?thesis by blast
qed

text \<open>
  Two instances: a validation that raises in the generation job, and a first update
  step that raises in the audit job.
\<close>

theorem failures_in_map_witness:
  "generation_map env_invalid item0
   = returned
       [(''validation_error'', PStr ''Exploration exp1 failed non-strict validation: no title'')]
       [LogError ''Exploration exp1 failed non-strict validation: no title'']
   \<and> audit_map env_picky
       (item0\<lparr>states_schema_version := 1, states := [(''broken'', PInt 0)]\<rparr>)
     = returned
         [(''MIGRATION_ERROR'',
           PStr ''Exploration exp1 failed migration to states v2: cannot convert'')]
         [LogException ''Exploration exp1 failed migration to states v2: cannot convert'']"
proof -
  have a: "\<not> deleted item0" by (simp add: item0_def)
  have h: "get_exploration_from_model env_invalid item0 = Inr exploration0 \<and>
           validate env_invalid exploration0 False = Some (ValidationError ''no title'')"
    by (simp add: env_invalid_def env0_def)
  have g: "generation_map env_invalid item0
   = returned
       [(''validation_error'', PStr ''Exploration exp1 failed non-strict validation: no title'')]
       [LogError ''Exploration exp1 failed non-strict validation: no title'']"
    using failures_in_map [where item = item0 and env = env_invalid
        and exploration = exploration0 and e = "ValidationError ''no title''", OF a,
        THEN conjunct2, THEN conjunct2, THEN conjunct2, THEN conjunct2, THEN conjunct1,
        rule_format, OF h]
    by (simp add: item0_def)
  have a': "\<not> deleted (item0\<lparr>states_schema_version := 1, states := [(''broken'', PInt 0)]\<rparr>)"
    by (simp add: item0_def)
  have h': "(\<lparr>vs_states_schema_version = 1, vs_states = [(''broken'', PInt 0)]\<rparr>, 1)
        \<in> set (audit_calls env_picky
                 (model_id (item0\<lparr>states_schema_version := 1,
                                   states := [(''broken'', PInt 0)]\<rparr>))
                 \<lparr>vs_states_schema_version =
                    states_schema_version
                      (item0\<lparr>states_schema_version := 1, states := [(''broken'', PInt 0)]\<rparr>),
                  vs_states =
                    states (item0\<lparr>states_schema_version := 1,
                                   states := [(''broken'', PInt 0)]\<rparr>)\<rparr>
                 (states_schema_version
                    (item0\<lparr>states_schema_version := 1, states := [(''broken'', PInt 0)]\<rparr>))) \<and>
      update_states_from_model env_picky
        (fst (\<lparr>vs_states_schema_version = 1, vs_states = [(''broken'', PInt 0)]\<rparr>, 1))
        (snd (\<lparr>vs_states_schema_version = 1, vs_states = [(''broken'', PInt 0)]\<rparr>, 1))
        (model_id (item0\<lparr>states_schema_version := 1, states := [(''broken'', PInt 0)]\<rparr>))
      = Inl (Exception ''cannot convert'')"
    by (simp add: audit_calls.simps env_picky_def env0_def item0_def)
  have m: "audit_map env_picky
       (item0\<lparr>states_schema_version := 1, states := [(''broken'', PInt 0)]\<rparr>)
     = returned
         [(''MIGRATION_ERROR'',
           PStr ''Exploration exp1 failed migration to states v2: cannot convert'')]
         [LogException ''Exploration exp1 failed migration to states v2: cannot convert'']"
    using failures_in_map [where env = env_picky
        and c = "(\<lparr>vs_states_schema_version = 1, vs_states = [(''broken'', PInt 0)]\<rparr>, 1)"
        and e = "Exception ''cannot convert''", OF a',
        THEN conjunct2, THEN conjunct2, THEN conjunct2, THEN conjunct1, rule_format, OF h']
    by (simp add: item0_def str_of_int_def str_of_nat.simps digit_char_def)
  from g m show ?thesis by blast
qed

text \<open>
  C3 as stated fails twice: the migration job catches a validation failure and logs
  it, but emits nothing for it; and the validity job lets a load failure leave its
  \<open>map\<close>.
\<close>

theorem uncaught_or_unreported_counterexample:
  "migration_map env_invalid (item0\<lparr>states_schema_version := 1\<rparr>)
   = returned [] [LogError ''Exploration exp1 failed non-strict validation: no title'']
   \<and> validity_map env_load_fails item0 = propagated [] [] (Exception ''unknown interaction'')"
  by (simp add: migration_map_def validity_map_def env_invalid_def env_load_fails_def env0_def
        item0_def)

text \<open>
  C4. Migration job: for a record that is not deleted and whose stored states schema
  version equals the current one, \<open>map\<close> emits nothing and makes no call that writes to
  the document store (it may log, when the re-validation fails).
\<close>

theorem migration_up_to_date_is_silent:
  assumes "\<not> deleted item"
    and "states_schema_version item = CURRENT_STATE_SCHEMA_VERSION env"
  shows "emits (migration_map env item) = []
       \<and> filter is_store_write (effects (migration_map env item)) = []"
  using assms
  by (simp add: migration_map_def returned_def propagated_def split: sum.splits option.splits)

theorem migration_up_to_date_is_silent_witness:
  "emits (migration_map env0 item0) = []
   \<and> filter is_store_write (effects (migration_map env0 item0)) = []"
proof -
  have a: "\<not> deleted item0" by (simp add: item0_def)
  have b: "states_schema_version item0 = CURRENT_STATE_SCHEMA_VERSION env0"
    by (simp add: item0_def env0_def)
  show ?thesis using migration_up_to_date_is_silent [OF a b] .
qed

text \<open>
  C5. Migration job, record not deleted: the exploration is validated non-strictly
  before anything is written. If that validation raises, \<open>map\<close> returns having logged the
  failure and nothing else: no emission, no call of the versioned-write API. And a run
  of \<open>map\<close> that did call a writing API is a run in which the exploration was loaded
  and its non-strict validation passed.
\<close>

theorem migration_revalidates_first:
  assumes "\<not> deleted item"
  shows "(\<forall>old_exploration e.
            get_exploration_by_id env (model_id item) = Inr old_exploration \<and>
            validate env old_exploration False = Some e \<longrightarrow>
            migration_map env item =
              returned []
                [LogError (''Exploration '' @ model_id item @
                           '' failed non-strict validation: '' @ exn_str e)])
       \<and> (filter is_store_write (effects (migration_map env item)) \<noteq> [] \<longrightarrow>
            (\<exists>old_exploration.
               get_exploration_by_id env (model_id item) = Inr old_exploration \<and>
               validate env old_exploration False = None))"
  using assms
  by (auto simp add: migration_map_def returned_def propagated_def Let_def
           split: sum.splits option.splits if_splits)

theorem migration_revalidates_first_witness:
  "migration_map (env0\<lparr>validate := (\<lambda>e strict. Some (ValidationError ''no title''))\<rparr>)
     (item0\<lparr>states_schema_version := 1\<rparr>)
   = returned [] [LogError ''Exploration exp1 failed non-strict validation: no title'']"
proof -
  have a: "\<not> deleted (item0\<lparr>states_schema_version := 1\<rparr>)" by (simp add: item0_def)
  show ?thesis
    using migration_revalidates_first
            [OF a, of "env0\<lparr>validate := (\<lambda>e strict. Some (ValidationError ''no title''))\<rparr>",
             THEN conjunct1, THEN spec, THEN spec, of exploration0 "ValidationError ''no title''"]
    by (simp add: env0_def item0_def)
qed

text \<open>
  C6, as amended. Migration audit job, record not deleted. If the stored states schema
  version is below the current one and none of the calls of
  \<open>update_states_from_model\<close> that the loop makes raises, the loop ends with the local
  \<open>states_schema_version\<close> equal to the current version, and \<open>map\<close> emits exactly one
  \<open>('SUCCESS', 1)\<close> and nothing else. If the stored version is the current one already
  (or above it), the loop makes no call; the test that yields \<open>('SUCCESS', 1)\<close> stands
  inside the loop body, so \<open>map\<close> emits nothing.
\<close>

theorem audit_all_steps_succeed:
  assumes "\<not> deleted item"
  shows "(states_schema_version item < CURRENT_STATE_SCHEMA_VERSION env \<and>
          (\<forall>c \<in> set (audit_calls env (model_id item)
                         \<lparr>vs_states_schema_version = states_schema_version item,
                          vs_states = states item\<rparr>
                         (states_schema_version item)).
              \<exists>vs'. update_states_from_model env (fst c) (snd c) (model_id item) = Inr vs') \<longrightarrow>
          audit_loop env (model_id item)
            \<lparr>vs_states_schema_version = states_schema_version item, vs_states = states item\<rparr>
            (states_schema_version item)
            = ([(''SUCCESS'', PInt 1)], [], CURRENT_STATE_SCHEMA_VERSION env)
          \<and> audit_map env item = returned [(''SUCCESS'', PInt 1)] [])
       \<and> (CURRENT_STATE_SCHEMA_VERSION env \<le> states_schema_version item \<longrightarrow>
          audit_calls env (model_id item)
            \<lparr>vs_states_schema_version = states_schema_version item, vs_states = states item\<rparr>
            (states_schema_version item) = []
          \<and> audit_loop env (model_id item)
            \<lparr>vs_states_schema_version = states_schema_version item, vs_states = states item\<rparr>
            (states_schema_version item)
            = ([], [], states_schema_version item)
          \<and> audit_map env item = returned [] [])"
proof (intro conjI impI)
  assume h: "states_schema_version item < CURRENT_STATE_SCHEMA_VERSION env \<and>
          (\<forall>c \<in> set (audit_calls env (model_id item)
                         \<lparr>vs_states_schema_version = states_schema_version item,
                          vs_states = states item\<rparr>
                         (states_schema_version item)).
              \<exists>vs'. update_states_from_model env (fst c) (snd c) (model_id item) = Inr vs')"
  then show l: "audit_loop env (model_id item)
            \<lparr>vs_states_schema_version = states_schema_version item, vs_states = states item\<rparr>
            (states_schema_version item)
            = ([(''SUCCESS'', PInt 1)], [], CURRENT_STATE_SCHEMA_VERSION env)"
    using audit_loop_calls_succeed by blast
  show "audit_map env item = returned [(''SUCCESS'', PInt 1)] []"
    using assms by (simp add: audit_map_def l)
next
  assume h: "CURRENT_STATE_SCHEMA_VERSION env \<le> states_schema_version item"
  then show "audit_calls env (model_id item)
            \<lparr>vs_states_schema_version = states_schema_version item, vs_states = states item\<rparr>
            (states_schema_version item) = []"
    by (simp add: audit_calls_none)
  from h show l: "audit_loop env (model_id item)
            \<lparr>vs_states_schema_version = states_schema_version item, vs_states = states item\<rparr>
            (states_schema_version item)
            = ([], [], states_schema_version item)"
    by (simp add: audit_loop_done)
  show "audit_map env item = returned [] []"
    using assms by (simp add: audit_map_def l)
qed

text \<open>
  An instance with an updater that looks at the dict: it raises on a dict that this
  run never passes, both calls of the run return, and \<open>map\<close> emits \<open>('SUCCESS', 1)\<close>.
\<close>

theorem audit_all_steps_succeed_witness:
  "audit_calls env_picky ''exp1'' \<lparr>vs_states_schema_version = 1, vs_states = []\<rparr> 1
   = [(\<lparr>vs_states_schema_version = 1, vs_states = []\<rparr>, 1),
      (\<lparr>vs_states_schema_version = 2, vs_states = []\<rparr>, 2)]
   \<and> update_states_from_model env_picky
       \<lparr>vs_states_schema_version = 1, vs_states = [(''broken'', PInt 0)]\<rparr> 1 ''exp1''
     = Inl (Exception ''cannot convert'')
   \<and> audit_map env_picky (item0\<lparr>states_schema_version := 1\<rparr>)
     = returned [(''SUCCESS'', PInt 1)] []"
proof -
  have c: "audit_calls env_picky ''exp1'' \<lparr>vs_states_schema_version = 1, vs_states = []\<rparr> 1
   = [(\<lparr>vs_states_schema_version = 1, vs_states = []\<rparr>, 1),
      (\<lparr>vs_states_schema_version = 2, vs_states = []\<rparr>, 2)]"
    by (simp add: audit_calls.simps env_picky_def env0_def)
  have u: "update_states_from_model env_picky
       \<lparr>vs_states_schema_version = 1, vs_states = [(''broken'', PInt 0)]\<rparr> 1 ''exp1''
     = Inl (Exception ''cannot convert'')"
    by (simp add: env_picky_def)
  have a: "\<not> deleted (item0\<lparr>states_schema_version := 1\<rparr>)" by (simp add: item0_def)
  have b: "states_schema_version (item0\<lparr>states_schema_version := 1\<rparr>)
             < CURRENT_STATE_SCHEMA_VERSION env_picky \<and>
          (\<forall>c \<in> set (audit_calls env_picky (model_id (item0\<lparr>states_schema_version := 1\<rparr>))
                         \<lparr>vs_states_schema_version =
                            states_schema_version (item0\<lparr>states_schema_version := 1\<rparr>),
                          vs_states = states (item0\<lparr>states_schema_version := 1\<rparr>)\<rparr>
                         (states_schema_version (item0\<lparr>states_schema_version := 1\<rparr>))).
              \<exists>vs'. update_states_from_model env_picky (fst c) (snd c)
                       (model_id (item0\<lparr>states_schema_version := 1\<rparr>)) = Inr vs')"
    using c by (simp add: item0_def) (simp add: env_picky_def env0_def)
  have m: "audit_map env_picky (item0\<lparr>states_schema_version := 1\<rparr>)
     = returned [(''SUCCESS'', PInt 1)] []"
    using audit_all_steps_succeed [OF a, of env_picky, THEN conjunct1, rule_format, OF b]
    by simp
  from c u m show ?thesis by blast
qed

text \<open>
  C6 as stated fails for a record that is at the current version: no step raises,
  and there is no \<open>('SUCCESS', 1)\<close>.
\<close>

theorem audit_up_to_date_counterexample:
  "\<not> deleted item0
   \<and> states_schema_version item0 = CURRENT_STATE_SCHEMA_VERSION env0
   \<and> audit_map env0 item0 = returned [] []"
  by (simp add: audit_map_def item0_def env0_def audit_loop.simps)

text \<open>
  C7. Deletion job: \<open>map\<close> emits exactly one \<open>('model_deleted', 1)\<close> pair for each
  scanned record, so a scan of \<open>items\<close> yields as many such pairs as there are records;
  and \<open>reduce\<close>, given the values grouped under that key (each written as a string
  by the engine and read back by \<open>ast.literal_eval\<close>), reports their sum, which is the
  number of records scanned, inside its one message.
\<close>

theorem deletion_job_counts:
  assumes "literal_eval (stringify (PInt 1)) = Inr 1"
  shows "emits (deletion_map item) = [(''model_deleted'', PInt 1)]
    \<and> scan deletion_map items = replicate (length items) (''model_deleted'', PInt 1)
    \<and> length (filter (\<lambda>kv. fst kv = ''model_deleted'') (scan deletion_map items)) = length items
    \<and> deletion_reduce literal_eval ''model_deleted''
         (grouped stringify ''model_deleted'' (scan deletion_map items))
       = returned [(''model_deleted'',
            PList [PStr (str_of_int (int (length items)) @ '' models successfully delelted.'')])] []"
proof -
  have g: "grouped stringify ''model_deleted'' (scan deletion_map items)
           = replicate (length items) (stringify (PInt 1))"
    by (simp add: grouped_def scan_deletion_map map_replicate_const)
  have e: "eval_all literal_eval (replicate (length items) (stringify (PInt 1)))
           = Inr (replicate (length items) 1)"
    using eval_all_const [of "replicate (length items) (stringify (PInt 1))" literal_eval 1] assms
    by simp
  have r: "deletion_reduce literal_eval ''model_deleted''
         (grouped stringify ''model_deleted'' (scan deletion_map items))
       = returned [(''model_deleted'',
            PList [PStr (str_of_int (int (length items)) @ '' models successfully delelted.'')])] []"
    unfolding g by (simp add: deletion_reduce_def e sum_list_replicate_one)
  have m: "emits (deletion_map item) = [(''model_deleted'', PInt 1)]"
    by (simp add: deletion_map_def returned_def)
  have c: "length (filter (\<lambda>kv. fst kv = ''model_deleted'') (scan deletion_map items)) = length items"
    by (simp add: scan_deletion_map)
  from m c r show ?thesis
    using scan_deletion_map [of items] by blast
qed

theorem deletion_job_counts_witness:
  "deletion_reduce literal_eval_int0 ''model_deleted''
     (grouped stringify0 ''model_deleted''
        (scan deletion_map
           [\<lparr>model_id = ''a'', deleted = False, latex_strings_without_svg = []\<rparr>,
            \<lparr>model_id = ''b'', deleted = True, latex_strings_without_svg = [''x'']\<rparr>]))
   = returned [(''model_deleted'', PList [PStr ''2 models successfully delelted.''])] []"
proof -
  have h: "literal_eval_int0 (stringify0 (PInt 1)) = Inr 1"
    by (simp add: stringify0_def literal_eval_int0_def str_of_int_def str_of_nat.simps digit_char_def)
  show ?thesis
    using deletion_job_counts [of literal_eval_int0 stringify0 _
        "[\<lparr>model_id = ''a'', deleted = False, latex_strings_without_svg = []\<rparr>,
          \<lparr>model_id = ''b'', deleted = True, latex_strings_without_svg = [''x'']\<rparr>]",
        OF h, THEN conjunct2, THEN conjunct2, THEN conjunct2]
    by (simp add: str_of_int_def str_of_nat.simps digit_char_def)
qed

text \<open>
  C8, as amended. The \<open>map\<close> of the validity, migration audit, migration, SVG
  filename, math info generation and viewable jobs yields at most one pair for a
  record; for the audit job that is nothing, one \<open>('SUCCESS', 1)\<close> or one
  \<open>MIGRATION_ERROR\<close>, for the generation job nothing, one pair under its success key
  or one \<open>validation_error\<close>. The CKEditor and RTE jobs yield exactly one error pair
  when the exploration does not load; when it loads, the CKEditor job yields one pair
  for every error category with a non-empty list and the RTE job one pair for every key
  of the error dict, so one record can yield several pairs.
\<close>

theorem emissions_per_record:
  "(j \<in> {ExplorationValidityJobManager, ExplorationMigrationAuditJob,
          ExplorationMigrationJobManager, ExplorationMathSvgFilenameValidationOneOffJob,
          ExplorationMathRichTextInfoModelGenerationOneOffJob, ViewableExplorationsAuditJob}
      \<longrightarrow> length (emits (job_map j env item)) \<le> 1)
   \<and> (emits (audit_map env item) = []
        \<or> emits (audit_map env item) = [(''SUCCESS'', PInt 1)]
        \<or> (\<exists>m. emits (audit_map env item) = [(''MIGRATION_ERROR'', PStr m)]))
   \<and> (emits (generation_map env item) = []
        \<or> (\<exists>v. emits (generation_map env item) = [(SUCCESS_KEY, v)])
        \<or> (\<exists>m. emits (generation_map env item) = [(''validation_error'', PStr m)]))
   \<and> (\<not> deleted item \<and> get_exploration_from_model env item = Inl e \<longrightarrow>
        emits (ckeditor_map env item)
          = [(''Error '' @ exn_str e @ '' when loading exploration'', PList [PStr (model_id item)])]
        \<and> emits (rte_map env item)
          = [(''Error '' @ exn_str e @ '' when loading exploration'', PList [PStr (model_id item)])])
   \<and> (\<not> deleted item \<and> get_exploration_from_model env item = Inr exploration \<longrightarrow>
        length (emits (ckeditor_map env item))
          = length (filter (\<lambda>kv. snd kv \<noteq> [])
                      (validate_rte_format env (exp_html_content_strings exploration)
                         (RTE_FORMAT_CKEDITOR env)))
        \<and> length (emits (rte_map env item))
          = length (validate_customization_args env (exp_html_content_strings exploration)))"
proof -
  have a: "j \<in> {ExplorationValidityJobManager, ExplorationMigrationAuditJob,
          ExplorationMigrationJobManager, ExplorationMathSvgFilenameValidationOneOffJob,
          ExplorationMathRichTextInfoModelGenerationOneOffJob, ViewableExplorationsAuditJob}
      \<longrightarrow> length (emits (job_map j env item)) \<le> 1"
    using validity_emits_le_one [of env item] audit_map_emits_le_one [of env item]
      migration_emits_le_one [of env item] svg_filename_emits_le_one [of env item]
      generation_emits_le_one [of env item] viewable_emits_le_one [of env item]
    by (cases j) simp_all
  have b: "\<not> deleted item \<and> get_exploration_from_model env item = Inl e \<longrightarrow>
        emits (ckeditor_map env item)
          = [(''Error '' @ exn_str e @ '' when loading exploration'', PList [PStr (model_id item)])]
        \<and> emits (rte_map env item)
          = [(''Error '' @ exn_str e @ '' when loading exploration'', PList [PStr (model_id item)])]"
    by (simp add: ckeditor_map_def rte_map_def returned_def)
  have c: "\<not> deleted item \<and> get_exploration_from_model env item = Inr exploration \<longrightarrow>
        length (emits (ckeditor_map env item))
          = length (filter (\<lambda>kv. snd kv \<noteq> [])
                      (validate_rte_format env (exp_html_content_strings exploration)
                         (RTE_FORMAT_CKEDITOR env)))
        \<and> length (emits (rte_map env item))
          = length (validate_customization_args env (exp_html_content_strings exploration))"
    by (simp add: ckeditor_map_def rte_map_def returned_def Let_def
          length_ckeditor_err_loop length_rte_err_loop)
  from a b c audit_map_fates [of env item] generation_fates [of env item]
  show ?thesis by blast
qed

theorem emissions_per_record_witness:
  "length (emits (job_map ExplorationMathRichTextInfoModelGenerationOneOffJob env0 item0)) \<le> 1
   \<and> length (emits (ckeditor_map env0 item0)) = 2"
proof -
  have a: "length (emits (job_map ExplorationMathRichTextInfoModelGenerationOneOffJob env0 item0)) \<le> 1"
    using emissions_per_record
            [of ExplorationMathRichTextInfoModelGenerationOneOffJob env0 item0, THEN conjunct1]
    by simp
  have h: "\<not> deleted item0 \<and> get_exploration_from_model env0 item0 = Inr exploration0"
    by (simp add: item0_def env0_def)
  have b: "length (emits (ckeditor_map env0 item0)) = 2"
    using emissions_per_record
            [of _ env0 item0 _ exploration0, THEN conjunct2, THEN conjunct2, THEN conjunct2,
             THEN conjunct2, rule_format, OF h, THEN conjunct1]
    by (simp add: env0_def)
  from a b show ?thesis by blast
qed

text \<open>
  C8 as stated fails for the CKEditor job: a record whose content has errors in two
  categories yields two pairs.
\<close>

theorem ckeditor_two_emissions_counterexample:
  "emits (ckeditor_map env0 item0)
   = [(''strings Exp Id: exp1'', PList [PStr ''<p>hi</p>'']),
      (''invalidTags Exp Id: exp1'', PList [PStr ''b''])]"
  by (simp add: ckeditor_map_def env0_def item0_def exploration0_def returned_def)

text \<open>
  C9, as amended. In the \<open>map\<close> of the ten jobs that scan ExplorationModel records,
  the only call that changes stored data is the migration job's call of
  \<open>exp_services.update_exploration\<close>, the versioned-write API, made as the
  migration bot on the scanned record's id with a change list of the one command
  \<open>migrate_states_schema_to_latest_version\<close> and a commit message; no \<open>map\<close>
  assigns to a field of the record. The first-published job's \<open>map\<close> has no effect.
  The deletion job's \<open>map\<close> is the exception the claim does not name: it calls
  \<open>item.delete()\<close> on the record it scans.
\<close>

theorem map_store_writes:
  "(\<forall>f \<in> set (effects (job_map j env item)).
      is_store_write f \<longrightarrow>
      j = ExplorationMigrationJobManager \<and>
      f = UpdateExploration (MIGRATION_BOT_USERNAME env) (model_id item)
            [\<lparr>cmd = CMD_MIGRATE_STATES_SCHEMA_TO_LATEST_VERSION env,
              from_version = str_of_int (states_schema_version item),
              to_version = str_of_int (CURRENT_STATE_SCHEMA_VERSION env)\<rparr>]
            (''Update exploration states from schema version '' @
             str_of_int (states_schema_version item) @ '' to '' @
             str_of_int (CURRENT_STATE_SCHEMA_VERSION env) @ ''.''))
   \<and> effects (first_published_map env sitem) = []
   \<and> effects (deletion_map ditem) = [ModelDelete (model_id ditem)]"
proof -
  have a: "\<forall>f \<in> set (effects (job_map j env item)).
      is_store_write f \<longrightarrow>
      j = ExplorationMigrationJobManager \<and>
      f = UpdateExploration (MIGRATION_BOT_USERNAME env) (model_id item)
            [\<lparr>cmd = CMD_MIGRATE_STATES_SCHEMA_TO_LATEST_VERSION env,
              from_version = str_of_int (states_schema_version item),
              to_version = str_of_int (CURRENT_STATE_SCHEMA_VERSION env)\<rparr>]
            (''Update exploration states from schema version '' @
             str_of_int (states_schema_version item) @ '' to '' @
             str_of_int (CURRENT_STATE_SCHEMA_VERSION env) @ ''.'')"
  proof (cases j)
    case ExplorationMigrationAuditJob
    then show ?thesis using audit_effects by auto
  next
    case ExplorationMigrationJobManager
    then show ?thesis using migration_effects by auto
  next
    case ExplorationMathRichTextInfoModelGenerationOneOffJob
    then show ?thesis using generation_effects by auto
  qed (simp_all add: validity_effects svg_filename_effects mock_math_effects viewable_effects
         hints_effects ckeditor_effects rte_effects)
  have b: "effects (first_published_map env sitem) = []"
    by (simp add: first_published_map_def returned_def propagated_def split: option.splits)
  have c: "effects (deletion_map ditem) = [ModelDelete (model_id ditem)]"
    by (simp add: deletion_map_def returned_def)
  from a b c show ?thesis by blast
qed

theorem map_store_writes_witness:
  "effects (job_map ExplorationMigrationJobManager env0 (item0\<lparr>states_schema_version := 2\<rparr>))
   = [UpdateExploration ''OppiaMigrationBot'' ''exp1''
        [\<lparr>cmd = ''migrate_states_schema_to_latest_version'', from_version = ''2'',
          to_version = ''3''\<rparr>]
        ''Update exploration states from schema version 2 to 3.'']"
proof -
  have e: "effects (job_map ExplorationMigrationJobManager env0 (item0\<lparr>states_schema_version := 2\<rparr>))
    = [UpdateExploration (MIGRATION_BOT_USERNAME env0) ''exp1''
            [\<lparr>cmd = CMD_MIGRATE_STATES_SCHEMA_TO_LATEST_VERSION env0,
              from_version = str_of_int 2,
              to_version = str_of_int (CURRENT_STATE_SCHEMA_VERSION env0)\<rparr>]
            (''Update exploration states from schema version '' @
             str_of_int 2 @ '' to '' @
             str_of_int (CURRENT_STATE_SCHEMA_VERSION env0) @ ''.'')]"
    by (simp add: migration_map_def env0_def item0_def returned_def)
  have "is_store_write (UpdateExploration (MIGRATION_BOT_USERNAME env0) ''exp1''
            [\<lparr>cmd = CMD_MIGRATE_STATES_SCHEMA_TO_LATEST_VERSION env0,
              from_version = str_of_int 2,
              to_version = str_of_int (CURRENT_STATE_SCHEMA_VERSION env0)\<rparr>]
            (''Update exploration states from schema version '' @
             str_of_int 2 @ '' to '' @
             str_of_int (CURRENT_STATE_SCHEMA_VERSION env0) @ ''.''))" by simp
  with e map_store_writes [of ExplorationMigrationJobManager env0 "item0\<lparr>states_schema_version := 2\<rparr>",
      THEN conjunct1]
  show ?thesis
    by (simp add: env0_def str_of_int_def str_of_nat.simps digit_char_def)
qed

text \<open>
  C9 as stated fails for the deletion job, which is no migration: its \<open>map\<close> deletes
  the scanned record directly.
\<close>

theorem deletion_map_deletes_counterexample:
  "effects (deletion_map \<lparr>model_id = ''m2'', deleted = False, latex_strings_without_svg = [''x'']\<rparr>)
   = [ModelDelete ''m2'']
   \<and> is_store_write (ModelDelete ''m2'')"
  by (simp add: deletion_map_def returned_def)

text \<open>
  C10. RTE customization-args job, \<open>reduce\<close>, for a key that does not contain
  \<open>'loading exploration'\<close> and values that \<open>ast.literal_eval\<close> reads. When the
  flattened list has even length the pairing loop ends without an error: its result
  pairs \<open>flattened_values[2k + 1]\<close> with \<open>flattened_values[2k]\<close> for every
  \<open>k\<close> below half the length, all in range, and \<open>reduce\<close> yields one pair. When
  the length is odd the last round reads index \<open>length - 1\<close>, which is in range, and
  index \<open>length\<close>, which is not: the loop raises IndexError, and so does \<open>reduce\<close>,
  before it has yielded anything.
\<close>

theorem rte_reduce_pairing_bounds:
  assumes "eval_all literal_eval vals = Inr final_values"
    and "\<not> str_contains ''loading exploration'' key"
  shows "(even (length (concat final_values)) \<longrightarrow>
            pairing_loop (concat final_values) 0 []
            = Inr (map (\<lambda>k. (concat final_values ! (2 * k + 1), concat final_values ! (2 * k)))
                     [0 ..< length (concat final_values) div 2])
            \<and> raised (rte_reduce literal_eval key vals) = None
            \<and> length (emits (rte_reduce literal_eval key vals)) = 1)
       \<and> (odd (length (concat final_values)) \<longrightarrow>
            py_index (concat final_values) (length (concat final_values) - 1)
            = Inr (concat final_values ! (length (concat final_values) - 1))
            \<and> py_index (concat final_values) ((length (concat final_values) - 1) + 1)
              = Inl (IndexError ''list index out of range'')
            \<and> pairing_loop (concat final_values) 0 []
              = Inl (IndexError ''list index out of range'')
            \<and> rte_reduce literal_eval key vals
              = propagated [] [] (IndexError ''list index out of range''))"
proof (intro conjI impI)
  assume ev: "even (length (concat final_values))"
  show l: "pairing_loop (concat final_values) 0 []
            = Inr (map (\<lambda>k. (concat final_values ! (2 * k + 1), concat final_values ! (2 * k)))
                     [0 ..< length (concat final_values) div 2])"
    using pairing_loop_even [OF ev, of 0 "[]"] by simp
  show "raised (rte_reduce literal_eval key vals) = None"
    using assms by (simp add: rte_reduce_def l returned_def)
  show "length (emits (rte_reduce literal_eval key vals)) = 1"
    using assms by (simp add: rte_reduce_def l returned_def)
next
  assume od: "odd (length (concat final_values))"
  then have pos: "0 < length (concat final_values)" by (cases "concat final_values") simp_all
  from pos show "py_index (concat final_values) (length (concat final_values) - 1)
            = Inr (concat final_values ! (length (concat final_values) - 1))"
    by (simp add: py_index_def)
  from pos show "py_index (concat final_values) ((length (concat final_values) - 1) + 1)
              = Inl (IndexError ''list index out of range'')"
    by (simp add: py_index_def)
  show l: "pairing_loop (concat final_values) 0 []
              = Inl (IndexError ''list index out of range'')"
    using pairing_loop_odd [OF od, of 0 "[]"] by simp
  show "rte_reduce literal_eval key vals
              = propagated [] [] (IndexError ''list index out of range'')"
    using assms by (simp add: rte_reduce_def l)
qed

theorem rte_reduce_pairing_bounds_witness:
  "rte_reduce literal_eval_strs0 ''invalid'' [''[u'exp1']'']
     = propagated [] [] (IndexError ''list index out of range'')
   \<and> raised (rte_reduce literal_eval_strs0 ''invalid'' [''[u'bad tag', u'Exp ID: exp1']'']) = None"
proof -
  have a: "eval_all literal_eval_strs0 [''[u'exp1']''] = Inr [[''exp1'']]"
    by (simp add: literal_eval_strs0_def)
  have b: "eval_all literal_eval_strs0 [''[u'bad tag', u'Exp ID: exp1']'']
           = Inr [[''bad tag'', ''Exp ID: exp1'']]"
    by (simp add: literal_eval_strs0_def)
  have k: "\<not> str_contains ''loading exploration'' ''invalid''"
    by (simp add: str_contains_def str_find_def)
  have odd1: "rte_reduce literal_eval_strs0 ''invalid'' [''[u'exp1']'']
     = propagated [] [] (IndexError ''list index out of range'')"
    using rte_reduce_pairing_bounds [OF a k, THEN conjunct2] by simp
  have even1: "raised (rte_reduce literal_eval_strs0 ''invalid'' [''[u'bad tag', u'Exp ID: exp1']'']) = None"
    using rte_reduce_pairing_bounds [OF b k, THEN conjunct1] by simp
  from odd1 even1 show ?thesis by blast
qed

end
